theory Spec2Isabelle
  imports Main "HOL-Library.AList"
begin

section \<open>JavaScript values\<close>

text \<open>
  Values that flow through the projection engine: what \<^verbatim>\<open>snapshot.val()\<close> returns, what
  \<^verbatim>\<open>evolve\<close> takes and returns, what is handed to \<^verbatim>\<open>projectionRef.set\<close>. A \<^verbatim>\<open>number\<close> is
  modelled by its integer value (the engine never computes with numbers; non-integers, NaN and
  infinities are outside the model); a \<^verbatim>\<open>bigint\<close> is an unbounded integer. Strings are ASCII.
  An object is the list of its own enumerable properties.
\<close>

datatype jsval =
    VUndefined
  | VNull
  | VBool bool
  | VNum int
  | VBigInt int
  | VStr string
  | VArr "jsval list"
  | VObj "(string \<times> jsval) list"

text \<open>A thrown value: an \<^verbatim>\<open>Error\<close> instance (constructor name and message) or anything else.\<close>

datatype js_error =
    ErrorObj string string
  | NonError jsval

text \<open>\<^verbatim>\<open>error instanceof Error\<close>\<close>

fun instanceof_Error :: "js_error \<Rightarrow> bool" where
  "instanceof_Error (ErrorObj _ _) = True"
| "instanceof_Error (NonError _) = False"

text \<open>Truthiness, as tested by \<^verbatim>\<open>document && ...\<close> and \<^verbatim>\<open>!data\<close>.\<close>

fun truthy :: "jsval \<Rightarrow> bool" where
  "truthy VUndefined = False"
| "truthy VNull = False"
| "truthy (VBool b) = b"
| "truthy (VNum n) = (n \<noteq> 0)"
| "truthy (VBigInt n) = (n \<noteq> 0)"
| "truthy (VStr s) = (s \<noteq> [])"
| "truthy (VArr _) = True"
| "truthy (VObj _) = True"

text \<open>\<^verbatim>\<open>typeof v === 'object'\<close> (true of \<^verbatim>\<open>null\<close> and of arrays too).\<close>

fun typeof_object :: "jsval \<Rightarrow> bool" where
  "typeof_object VNull = True"
| "typeof_object (VArr _) = True"
| "typeof_object (VObj _) = True"
| "typeof_object _ = False"

text \<open>\<^verbatim>\<open>typeof v === 'string'\<close>\<close>

fun typeof_string :: "jsval \<Rightarrow> bool" where
  "typeof_string (VStr _) = True"
| "typeof_string _ = False"

text \<open>\<^verbatim>\<open>a ?? b\<close>\<close>

fun nullish :: "jsval \<Rightarrow> jsval \<Rightarrow> jsval" where
  "nullish VUndefined b = b"
| "nullish VNull b = b"
| "nullish a b = a"

subsection \<open>Decimal rendering and \<^verbatim>\<open>BigInt(...)\<close>\<close>

text \<open>\<^verbatim>\<open>n.toString()\<close> of a non-negative integer: its decimal digits, most significant first.\<close>

definition digit_char :: "nat \<Rightarrow> char" where
  "digit_char d = ''0123456789'' ! d"

fun nat_toString :: "nat \<Rightarrow> string" where
  "nat_toString n =
     (if n < 10 then [digit_char n]
      else nat_toString (n div 10) @ [digit_char (n mod 10)])"

declare nat_toString.simps [simp del]

text \<open>\<^verbatim>\<open>position.toString()\<close> and \<^verbatim>\<open>`${position}`\<close> of a bigint.\<close>

definition bigint_toString :: "int \<Rightarrow> string" where
  "bigint_toString i =
     (if i < 0 then CHR ''-'' # nat_toString (nat (- i)) else nat_toString (nat i))"

text \<open>
  \<^verbatim>\<open>BigInt(s)\<close> of a string (StringToBigInt): surrounding white space is dropped; the empty
  string is \<^verbatim>\<open>0n\<close>; \<^verbatim>\<open>0x\<close>, \<^verbatim>\<open>0o\<close>, \<^verbatim>\<open>0b\<close> introduce unsigned hexadecimal, octal and binary
  digits; otherwise an optional sign and decimal digits. Anything else is a SyntaxError.
\<close>

definition is_ws :: "char \<Rightarrow> bool" where
  "is_ws c = (c \<in> set [CHR '' '', CHR 0x09, CHR 0x0A, CHR 0x0B, CHR 0x0C, CHR 0x0D])"

definition trim :: "string \<Rightarrow> string" where
  "trim s = rev (dropWhile is_ws (rev (dropWhile is_ws s)))"

definition digit_val :: "char \<Rightarrow> nat option" where
  "digit_val c =
     map_of
       [(CHR ''0'', 0), (CHR ''1'', 1), (CHR ''2'', 2), (CHR ''3'', 3), (CHR ''4'', 4),
        (CHR ''5'', 5), (CHR ''6'', 6), (CHR ''7'', 7), (CHR ''8'', 8), (CHR ''9'', 9),
        (CHR ''a'', 10), (CHR ''b'', 11), (CHR ''c'', 12), (CHR ''d'', 13), (CHR ''e'', 14),
        (CHR ''f'', 15), (CHR ''A'', 10), (CHR ''B'', 11), (CHR ''C'', 12), (CHR ''D'', 13),
        (CHR ''E'', 14), (CHR ''F'', 15)] c"

fun parse_digits :: "nat \<Rightarrow> nat \<Rightarrow> string \<Rightarrow> nat option" where
  "parse_digits base acc [] = Some acc"
| "parse_digits base acc (c # cs) =
     (case digit_val c of
        None \<Rightarrow> None
      | Some d \<Rightarrow> if d < base then parse_digits base (acc * base + d) cs else None)"

definition parse_nat :: "nat \<Rightarrow> string \<Rightarrow> nat option" where
  "parse_nat base s = (if s = [] then None else parse_digits base 0 s)"

definition syntax_error :: "string \<Rightarrow> js_error" where
  "syntax_error s = ErrorObj ''SyntaxError'' (''Cannot convert '' @ s @ '' to a BigInt'')"

definition of_parse :: "string \<Rightarrow> bool \<Rightarrow> nat option \<Rightarrow> js_error + int" where
  "of_parse s neg r =
     (case r of None \<Rightarrow> Inl (syntax_error s)
      | Some n \<Rightarrow> Inr (if neg then - int n else int n))"

fun StringToBigInt :: "string \<Rightarrow> js_error + int" where
  "StringToBigInt s =
     (case trim s of
        [] \<Rightarrow> Inr 0
      | c # cs \<Rightarrow>
          if c = CHR ''0'' \<and> cs \<noteq> [] \<and> hd cs \<in> set ''xX'' then of_parse s False (parse_nat 16 (tl cs))
          else if c = CHR ''0'' \<and> cs \<noteq> [] \<and> hd cs \<in> set ''oO'' then of_parse s False (parse_nat 8 (tl cs))
          else if c = CHR ''0'' \<and> cs \<noteq> [] \<and> hd cs \<in> set ''bB'' then of_parse s False (parse_nat 2 (tl cs))
          else if c = CHR ''-'' then of_parse s True (parse_nat 10 cs)
          else if c = CHR ''+'' then of_parse s False (parse_nat 10 cs)
          else of_parse s False (parse_nat 10 (c # cs)))"


subsection \<open>Objects\<close>

text \<open>\<^verbatim>\<open>'_metadata' in document\<close>, asked of a truthy object; no array has that key.\<close>

fun has_metadata :: "jsval \<Rightarrow> bool" where
  "has_metadata (VObj kvs) = (''_metadata'' \<in> fst ` set kvs)"
| "has_metadata _ = False"

text \<open>\<^verbatim>\<open>const { _metadata, ...rest } = document\<close>: the properties other than \<^verbatim>\<open>_metadata\<close>.\<close>

fun rest_without_metadata :: "jsval \<Rightarrow> jsval" where
  "rest_without_metadata (VObj kvs) = VObj (filter (\<lambda>kv. fst kv \<noteq> ''_metadata'') kvs)"
| "rest_without_metadata v = v"

text \<open>
  \<^verbatim>\<open>{ ...state }\<close>: the own enumerable properties of the value. An array and a string spread to
  their indexed elements, every other primitive to nothing.
\<close>

fun spread :: "jsval \<Rightarrow> (string \<times> jsval) list" where
  "spread (VObj kvs) = kvs"
| "spread (VArr xs) = zip (map nat_toString [0 ..< length xs]) xs"
| "spread (VStr s) = zip (map nat_toString [0 ..< length s]) (map (\<lambda>c. VStr [c]) s)"
| "spread _ = []"

text \<open>
  \<^verbatim>\<open>v.key\<close> for the keys read by this code (\<^verbatim>\<open>_metadata\<close>, \<^verbatim>\<open>streamPosition\<close>, state fields) on a
  value already known to be truthy: an object's property, \<^verbatim>\<open>undefined\<close> on anything else.
\<close>

fun get_prop :: "jsval \<Rightarrow> string \<Rightarrow> jsval" where
  "get_prop (VObj kvs) k = (case map_of kvs k of None \<Rightarrow> VUndefined | Some v \<Rightarrow> v)"
| "get_prop _ k = VUndefined"

section \<open>The document store client\<close>

text \<open>
  The backing store is an external collaborator addressed by opaque paths: a map from path to
  the value stored there. The world also records every call made on the client, in order, and
  carries the scripts that decide how the client answers: what each successive fetch does,
  whether each successive write commits, whether \<^verbatim>\<open>goOffline\<close> and \<^verbatim>\<open>goOnline\<close> throw. An
  exhausted script means the client behaves well. Logging and tracing are not modelled
  (no logger is configured, spans do not throw).
\<close>

datatype db_call =
    Once string
  | Set string jsval
  | Remove string
  | GoOffline
  | GoOnline
  | Sleep nat

datatype fetch_outcome = Answers | Fails js_error | Stalls

datatype write_outcome = Commits | Refuses js_error

record world =
  store :: "string \<rightharpoonup> jsval"
  calls :: "db_call list"
  fetches :: "fetch_outcome list"
  writes :: "write_outcome list"
  offline_throws :: "bool list"
  online_throws :: "bool list"

text \<open>The state of a promise when somebody stops waiting for it.\<close>

datatype 'a settle = Resolved 'a | Rejected js_error | Pending

text \<open>\<^verbatim>\<open>ref.once('value')\<close>: a snapshot of what is stored at the path, if the fetch answers.\<close>

definition ref_once :: "string \<Rightarrow> world \<Rightarrow> (jsval option) settle \<times> world" where
  "ref_once path w =
     (let w' = w\<lparr>calls := calls w @ [Once path], fetches := tl (fetches w)\<rparr> in
      case fetches w of
        [] \<Rightarrow> (Resolved (store w path), w')
      | Answers # _ \<Rightarrow> (Resolved (store w path), w')
      | Fails e # _ \<Rightarrow> (Rejected e, w')
      | Stalls # _ \<Rightarrow> (Pending, w'))"

text \<open>\<^verbatim>\<open>snapshot.val()\<close>\<close>

definition snapshot_val :: "jsval option \<Rightarrow> jsval" where
  "snapshot_val snapshot = (case snapshot of None \<Rightarrow> VNull | Some v \<Rightarrow> v)"

text \<open>\<^verbatim>\<open>ref.set(value)\<close>: overwrites what is stored at the path.\<close>

definition ref_set :: "string \<Rightarrow> jsval \<Rightarrow> world \<Rightarrow> (js_error + unit) \<times> world" where
  "ref_set path v w =
     (let w' = w\<lparr>calls := calls w @ [Set path v], writes := tl (writes w)\<rparr> in
      case writes w of
        Refuses e # _ \<Rightarrow> (Inl e, w')
      | _ \<Rightarrow> (Inr (), w'\<lparr>store := (store w)(path \<mapsto> v)\<rparr>))"

text \<open>\<^verbatim>\<open>ref.remove()\<close>\<close>

definition ref_remove :: "string \<Rightarrow> world \<Rightarrow> (js_error + unit) \<times> world" where
  "ref_remove path w =
     (let w' = w\<lparr>calls := calls w @ [Remove path], writes := tl (writes w)\<rparr> in
      case writes w of
        Refuses e # _ \<Rightarrow> (Inl e, w')
      | _ \<Rightarrow> (Inr (), w'\<lparr>store := (store w)(path := None)\<rparr>))"

text \<open>\<^verbatim>\<open>database.goOffline()\<close> and \<^verbatim>\<open>database.goOnline()\<close>; the flag says whether the call threw.\<close>

definition goOffline :: "world \<Rightarrow> bool \<times> world" where
  "goOffline w =
     (case offline_throws w of [] \<Rightarrow> False | b # _ \<Rightarrow> b,
      w\<lparr>calls := calls w @ [GoOffline], offline_throws := tl (offline_throws w)\<rparr>)"

definition goOnline :: "world \<Rightarrow> bool \<times> world" where
  "goOnline w =
     (case online_throws w of [] \<Rightarrow> False | b # _ \<Rightarrow> b,
      w\<lparr>calls := calls w @ [GoOnline], online_throws := tl (online_throws w)\<rparr>)"

definition sleep :: "nat \<Rightarrow> world \<Rightarrow> world" where
  "sleep ms w = w\<lparr>calls := calls w @ [Sleep ms]\<rparr>"

section \<open>The retrying reader\<close>

definition READ_TIMEOUTS_MS :: "nat list" where
  "READ_TIMEOUTS_MS = [5000, 8000, 12000]"

definition TIMEOUT_ERROR_MESSAGE :: string where
  "TIMEOUT_ERROR_MESSAGE = ''Realtime DB read timed out.''"

text \<open>
  \<^verbatim>\<open>withTimeout(promise, timeoutMs)\<close>: the race between the promise and the timer. A promise
  still pending when the timer fires loses, and the race rejects with the timeout error.
\<close>

fun withTimeout :: "'a settle \<Rightarrow> nat \<Rightarrow> js_error + 'a" where
  "withTimeout (Resolved v) timeoutMs = Inr v"
| "withTimeout (Rejected e) timeoutMs = Inl e"
| "withTimeout Pending timeoutMs = Inl (ErrorObj ''Error'' TIMEOUT_ERROR_MESSAGE)"

fun isTimeoutError :: "js_error \<Rightarrow> bool" where
  "isTimeoutError (ErrorObj _ message) = (message = TIMEOUT_ERROR_MESSAGE)"
| "isTimeoutError (NonError _) = False"

text \<open>An exception of \<^verbatim>\<open>goOffline\<close> or \<^verbatim>\<open>goOnline\<close> ends the \<^verbatim>\<open>try\<close> block and is only logged.\<close>

definition resetRealtimeDbConnection :: "world \<Rightarrow> world" where
  "resetRealtimeDbConnection w =
     (case goOffline w of
        (True, w1) \<Rightarrow> w1
      | (False, w1) \<Rightarrow> snd (goOnline w1))"

function readSnapshotLoop ::
  "nat \<Rightarrow> js_error option \<Rightarrow> string \<Rightarrow> world \<Rightarrow> (js_error + jsval option) \<times> world" where
  "readSnapshotLoop attempt lastError projectionRef w =
     (if attempt < length READ_TIMEOUTS_MS then
        (case ref_once projectionRef w of
           (promise, w1) \<Rightarrow>
             (case withTimeout promise (READ_TIMEOUTS_MS ! attempt) of
                Inr snapshot \<Rightarrow> (Inr snapshot, w1)
              | Inl error \<Rightarrow>
                  readSnapshotLoop (attempt + 1) (Some error) projectionRef
                    (let w2 = (if isTimeoutError error then resetRealtimeDbConnection w1 else w1)
                     in if attempt < length READ_TIMEOUTS_MS - 1
                        then sleep (500 * (attempt + 1)) w2 else w2)))
      else
        (Inl (case lastError of
                Some (ErrorObj n m) \<Rightarrow> ErrorObj n m
              | _ \<Rightarrow> ErrorObj ''Error'' ''Realtime DB read failed after retries.''), w))"
  by pat_completeness auto
termination
  by (relation "measure (\<lambda>(attempt, _, _, _). length READ_TIMEOUTS_MS - attempt)") auto

declare readSnapshotLoop.simps [simp del]

definition readSnapshotWithRetry ::
  "string \<Rightarrow> world \<Rightarrow> (js_error + jsval option) \<times> world" where
  "readSnapshotWithRetry projectionRef w = readSnapshotLoop 0 None projectionRef w"


section \<open>Events and projection definitions\<close>

record event =
  type :: string
  data :: jsval

record readEventMetadata =
  streamName :: string
  streamPosition :: int
  messageId :: string

record readEvent = event +
  metadata :: readEventMetadata

text \<open>
  The handler context; the \<^verbatim>\<open>database\<close> it carries is the world, and \<^verbatim>\<open>projectionRef\<close> is the
  path the reference points to.
\<close>

record RealtimeDBProjectionInlineHandlerContext =
  document :: jsval
  streamId :: string
  projectionRef :: string

text \<open>
  The options of the factory. \<^verbatim>\<open>evolve\<close> returns the next state (\<^verbatim>\<open>null\<close> included) or throws;
  an absent \<^verbatim>\<open>name\<close>, \<^verbatim>\<open>schemaVersion\<close> or \<^verbatim>\<open>initialState\<close> is \<open>None\<close>.
\<close>

record RealtimeDBInlineProjectionOptions =
  name :: "string option"
  schemaVersion :: "int option"
  canHandle :: "string list"
  evolve :: "jsval \<Rightarrow> readEvent \<Rightarrow> js_error + jsval"
  initialState :: "(unit \<Rightarrow> jsval) option"

record RealtimeDBInlineProjectionDefinition =
  name :: string
  canHandle :: "string list"
  handle :: "readEvent list \<Rightarrow> RealtimeDBProjectionInlineHandlerContext \<Rightarrow> world
               \<Rightarrow> (js_error + unit) \<times> world"

section \<open>The projection applier\<close>

text \<open>The stored document without its envelope: \<^verbatim>\<open>rawDocument\<close>.\<close>

definition rawDocument :: "jsval \<Rightarrow> jsval" where
  "rawDocument doc =
     (if truthy doc \<and> typeof_object doc then
        (if has_metadata doc then rest_without_metadata doc else doc)
      else VNull)"

text \<open>The state the fold starts from.\<close>

definition workingState :: "RealtimeDBInlineProjectionOptions \<Rightarrow> jsval \<Rightarrow> jsval" where
  "workingState options doc =
     (case initialState options of
        Some init \<Rightarrow> nullish (rawDocument doc) (init ())
      | None \<Rightarrow> rawDocument doc)"

text \<open>The loop over the events; an exception of \<^verbatim>\<open>evolve\<close> leaves it.\<close>

fun evolveAll ::
  "(jsval \<Rightarrow> readEvent \<Rightarrow> js_error + jsval) \<Rightarrow> jsval \<Rightarrow> readEvent list \<Rightarrow> js_error + jsval" where
  "evolveAll ev state [] = Inr state"
| "evolveAll ev state (e # es) =
     (case ev state e of
        Inl err \<Rightarrow> Inl err
      | Inr state' \<Rightarrow> evolveAll ev state' es)"

definition projectionName :: "RealtimeDBInlineProjectionOptions \<Rightarrow> string" where
  "projectionName options =
     (case RealtimeDBInlineProjectionOptions.name options of None \<Rightarrow> ''_default'' | Some n \<Rightarrow> n)"

definition schemaVersionOf :: "RealtimeDBInlineProjectionOptions \<Rightarrow> int" where
  "schemaVersionOf options = (case schemaVersion options of None \<Rightarrow> 1 | Some v \<Rightarrow> v)"

text \<open>The \<^verbatim>\<open>_metadata\<close> envelope written with the state.\<close>

definition readModelMetadata ::
  "RealtimeDBInlineProjectionOptions \<Rightarrow> string \<Rightarrow> readEvent list \<Rightarrow> jsval" where
  "readModelMetadata options sid events =
     VObj [(''streamId'', VStr sid),
           (''name'', VStr (projectionName options)),
           (''schemaVersion'', VNum (schemaVersionOf options)),
           (''streamPosition'',
              VStr (bigint_toString (streamPosition (metadata (last events)))))]"

text \<open>\<^verbatim>\<open>{ ...state, _metadata: metadata }\<close>\<close>

definition withMetadata :: "jsval \<Rightarrow> jsval \<Rightarrow> jsval" where
  "withMetadata state md = VObj (AList.update ''_metadata'' md (spread state))"

definition realtimeDBInlineProjection ::
  "RealtimeDBInlineProjectionOptions \<Rightarrow> RealtimeDBInlineProjectionDefinition" where
  "realtimeDBInlineProjection options =
     \<lparr>RealtimeDBInlineProjectionDefinition.name = projectionName options,
      RealtimeDBInlineProjectionDefinition.canHandle =
        RealtimeDBInlineProjectionOptions.canHandle options,
      handle = (\<lambda>events ctx w.
        if events = [] then (Inr (), w)
        else
          (case evolveAll (evolve options) (workingState options (document ctx)) events of
             Inl err \<Rightarrow> (Inl err, w)
           | Inr state \<Rightarrow>
               if state \<noteq> VNull then
                 ref_set (projectionRef ctx)
                   (withMetadata state (readModelMetadata options (streamId ctx) events)) w
               else ref_remove (projectionRef ctx) w))\<rparr>"

section \<open>The dispatcher\<close>

definition projectionPath :: "string \<Rightarrow> string \<Rightarrow> string" where
  "projectionPath projName sid = ''projections/'' @ projName @ ''/'' @ sid"

definition handleSingleProjection ::
  "RealtimeDBInlineProjectionDefinition \<Rightarrow> readEvent list \<Rightarrow> string \<Rightarrow> world
     \<Rightarrow> (js_error + unit) \<times> world" where
  "handleSingleProjection projection events sid w =
     (let ref = projectionPath (name projection) sid in
      case readSnapshotWithRetry ref w of
        (Inl err, w1) \<Rightarrow> (Inl err, w1)
      | (Inr snapshot, w1) \<Rightarrow>
          handle projection events
            \<lparr>document = nullish (snapshot_val snapshot) VNull, streamId = sid,
             projectionRef = ref\<rparr> w1)"

text \<open>The \<^verbatim>\<open>for ... of\<close> loop over the matching projections; the first exception leaves it.\<close>

fun handleEach ::
  "RealtimeDBInlineProjectionDefinition list \<Rightarrow> readEvent list \<Rightarrow> string \<Rightarrow> world
     \<Rightarrow> (js_error + unit) \<times> world" where
  "handleEach [] events sid w = (Inr (), w)"
| "handleEach (projection # projections) events sid w =
     (case handleSingleProjection projection events sid w of
        (Inl err, w1) \<Rightarrow> (Inl err, w1)
      | (Inr _, w1) \<Rightarrow> handleEach projections events sid w1)"

definition matchingProjections ::
  "readEvent list \<Rightarrow> RealtimeDBInlineProjectionDefinition list
     \<Rightarrow> RealtimeDBInlineProjectionDefinition list" where
  "matchingProjections events allProjections =
     (let eventTypes = map type events in
      filter (\<lambda>p. list_ex (\<lambda>ty. List.member eventTypes ty) (canHandle p)) allProjections)"

definition handleInlineProjections ::
  "readEvent list \<Rightarrow> RealtimeDBInlineProjectionDefinition list \<Rightarrow> string \<Rightarrow> world
     \<Rightarrow> (js_error + unit) \<times> world" where
  "handleInlineProjections events allProjections sid w =
     handleEach (matchingProjections events allProjections) events sid w"

section \<open>The append interceptor\<close>

text \<open>
  The version fields of an append result, read through \<^verbatim>\<open>result as any\<close>: absent, a bigint,
  a number (with an integer value) or a string.
\<close>

datatype version_value =
    NoVersion
  | BigIntVersion int
  | NumberVersion int
  | StringVersion string

record AppendToStreamResult =
  nextExpectedStreamVersion :: version_value
  streamVersion :: version_value

text \<open>\<^verbatim>\<open>typeof versionValue === 'bigint' ? versionValue : BigInt(versionValue)\<close>\<close>

fun toBigInt :: "version_value \<Rightarrow> js_error + int" where
  "toBigInt (BigIntVersion v) = Inr v"
| "toBigInt (NumberVersion n) = Inr n"
| "toBigInt (StringVersion s) = StringToBigInt s"
| "toBigInt NoVersion = Inl (ErrorObj ''TypeError'' ''Cannot convert undefined to a BigInt'')"

definition versionValue :: "'a AppendToStreamResult_scheme \<Rightarrow> version_value" where
  "versionValue result =
     (case nextExpectedStreamVersion result of
        NoVersion \<Rightarrow> streamVersion result
      | v \<Rightarrow> v)"

definition readEvents :: "string \<Rightarrow> int \<Rightarrow> event list \<Rightarrow> readEvent list" where
  "readEvents sname nextVersion events =
     map (\<lambda>(index, event).
            let position = nextVersion - int (length events) + 1 + int index in
            \<lparr>type = type event, data = data event,
             metadata = \<lparr>streamName = sname, streamPosition = position,
                         messageId = sname @ ''-'' @ bigint_toString position\<rparr>\<rparr>)
         (enumerate 0 events)"

record ('o, 'r) EventStore =
  appendToStream ::
    "string \<Rightarrow> event list \<Rightarrow> 'o \<Rightarrow> world \<Rightarrow> (js_error + 'r AppendToStreamResult_scheme) \<times> world"

record ('o, 'r) WireRealtimeDBProjectionsOptions =
  eventStore :: "('o, 'r) EventStore"
  projections :: "RealtimeDBInlineProjectionDefinition list"

definition wireRealtimeDBProjections ::
  "('o, 'r) WireRealtimeDBProjectionsOptions \<Rightarrow> ('o, 'r) EventStore" where
  "wireRealtimeDBProjections options =
     (let originalAppend = appendToStream (eventStore options) in
      (eventStore options)\<lparr>appendToStream := (\<lambda>sname events appendOptions w.
         case originalAppend sname events appendOptions w of
           (Inl err, w1) \<Rightarrow> (Inl err, w1)
         | (Inr result, w1) \<Rightarrow>
             (case toBigInt (versionValue result) of
                Inl err \<Rightarrow> (Inl err, w1)
              | Inr nextVersion \<Rightarrow>
                  (case handleInlineProjections (readEvents sname nextVersion events)
                          (projections options) sname w1 of
                     (Inl err, w2) \<Rightarrow> (Inl err, w2)
                   | (Inr _, w2) \<Rightarrow> (Inr result, w2))))\<rparr>)"

section \<open>The read helper of the test kit\<close>

text \<open>
  \<^verbatim>\<open>data._metadata.streamPosition = BigInt(...)\<close> on the value the snapshot handed out; the
  store is not touched.
\<close>

definition convertStreamPosition :: "jsval \<Rightarrow> js_error + jsval" where
  "convertStreamPosition data' =
     (let md = get_prop data' ''_metadata'' in
      if truthy md \<and> typeof_string (get_prop md ''streamPosition'') then
        (case get_prop md ''streamPosition'' of
           VStr s \<Rightarrow>
             (case StringToBigInt s of
                Inl err \<Rightarrow> Inl err
              | Inr n \<Rightarrow>
                  Inr (VObj (AList.update ''_metadata''
                         (VObj (AList.update ''streamPosition'' (VBigInt n) (spread md)))
                         (spread data'))))
         | _ \<Rightarrow> Inr data')
      else Inr data')"

text \<open>The helper awaits the fetch without a timer: a fetch that stalls leaves it pending.\<close>

definition getProjectionState :: "string \<Rightarrow> string \<Rightarrow> world \<Rightarrow> jsval settle \<times> world" where
  "getProjectionState projName sid w =
     (case ref_once (projectionPath projName sid) w of
        (Pending, w1) \<Rightarrow> (Pending, w1)
      | (Rejected err, w1) \<Rightarrow> (Rejected err, w1)
      | (Resolved snapshot, w1) \<Rightarrow>
          (let data' = snapshot_val snapshot in
           if \<not> truthy data' then (Resolved VNull, w1)
           else (case convertStreamPosition data' of
                   Inl err \<Rightarrow> (Rejected err, w1)
                 | Inr v \<Rightarrow> (Resolved v, w1))))"


section \<open>Projections of the test fixtures\<close>

text \<open>
  \<^verbatim>\<open>counterProjection\<close>: a counter seeded with \<^verbatim>\<open>{ count: 0 }\<close> that \<^verbatim>\<open>ItemAdded\<close> increments and
  \<^verbatim>\<open>ItemRemoved\<close> decrements. The step is given for the fixture's own state type,
  \<^verbatim>\<open>{ count: number }\<close>, where it is the addition of integers. Off that type JavaScript
  computes \<^verbatim>\<open>NaN\<close> or a string, which the values of this model do not include; what the
  definition returns there (an error for a state that is no object, \<^verbatim>\<open>undefined\<close> for a count
  that is no number) is not what the code computes, and nothing below depends on it.
\<close>

definition counterStep :: "jsval \<Rightarrow> int \<Rightarrow> js_error + jsval" where
  "counterStep state k =
     (case state of
        VObj kvs \<Rightarrow>
          (case map_of kvs ''count'' of
             Some (VNum n) \<Rightarrow> Inr (VObj [(''count'', VNum (n + k))])
           | _ \<Rightarrow> Inr (VObj [(''count'', VUndefined)]))
      | _ \<Rightarrow> Inl (ErrorObj ''TypeError'' ''Cannot read properties of null''))"

definition counterOptions :: RealtimeDBInlineProjectionOptions where
  "counterOptions =
     \<lparr>RealtimeDBInlineProjectionOptions.name = Some ''test-counter'',
      schemaVersion = None,
      RealtimeDBInlineProjectionOptions.canHandle = [''ItemAdded'', ''ItemRemoved''],
      evolve = (\<lambda>state event.
        if type event = ''ItemAdded'' then counterStep state 1
        else if type event = ''ItemRemoved'' then counterStep state (- 1)
        else Inr state),
      initialState = Some (\<lambda>_. VObj [(''count'', VNum 0)])\<rparr>"

text \<open>\<^verbatim>\<open>nullableProjection\<close>: no initial state; created by \<^verbatim>\<open>ItemAdded\<close>, deleted by \<^verbatim>\<open>ItemRemoved\<close>.\<close>

definition nullableOptions :: RealtimeDBInlineProjectionOptions where
  "nullableOptions =
     \<lparr>RealtimeDBInlineProjectionOptions.name = Some ''test-nullable'',
      schemaVersion = None,
      RealtimeDBInlineProjectionOptions.canHandle = [''ItemAdded'', ''ItemRemoved''],
      evolve = (\<lambda>state event.
        if type event = ''ItemAdded'' \<and> state = VNull then Inr (VObj [(''value'', VStr ''created'')])
        else if type event = ''ItemRemoved'' \<and> state \<noteq> VNull then Inr VNull
        else Inr state),
      initialState = None\<rparr>"

text \<open>
  \<^verbatim>\<open>confirmationProjection\<close>: stamps the time of an \<^verbatim>\<open>OrderConfirmed\<close> or \<^verbatim>\<open>OrderCancelled\<close>
  on the state. \<open>now\<close> is what \<^verbatim>\<open>new Date().toISOString()\<close> returns.
\<close>

definition confirmationOptions :: "string \<Rightarrow> RealtimeDBInlineProjectionOptions" where
  "confirmationOptions now =
     \<lparr>RealtimeDBInlineProjectionOptions.name = Some ''test-confirmation'',
      schemaVersion = None,
      RealtimeDBInlineProjectionOptions.canHandle = [''OrderConfirmed'', ''OrderCancelled''],
      evolve = (\<lambda>state event.
        if type event = ''OrderConfirmed''
        then Inr (VObj (AList.update ''confirmedAt'' (VStr now) (spread state)))
        else if type event = ''OrderCancelled''
        then Inr (VObj (AList.update ''cancelledAt'' (VStr now) (spread state)))
        else Inr state),
      initialState = Some (\<lambda>_. VObj [(''confirmedAt'', VNull), (''cancelledAt'', VNull)])\<rparr>"

text \<open>The \<^verbatim>\<open>failingProjection\<close> of the dispatcher's unit test: its handler throws.\<close>

definition failingProjection :: RealtimeDBInlineProjectionDefinition where
  "failingProjection =
     \<lparr>RealtimeDBInlineProjectionDefinition.name = ''failing'',
      RealtimeDBInlineProjectionDefinition.canHandle = [''ItemAdded''],
      handle = (\<lambda>events ctx w. (Inl (ErrorObj ''Error'' ''Projection failed''), w))\<rparr>"

text \<open>\<^verbatim>\<open>createReadEvent\<close> of the fixtures, with its default stream name.\<close>

definition createReadEvent :: "string \<Rightarrow> jsval \<Rightarrow> int \<Rightarrow> readEvent" where
  "createReadEvent ty payload position =
     \<lparr>type = ty, data = payload,
      metadata = \<lparr>streamName = ''test-stream'', streamPosition = position,
                  messageId = ''msg-'' @ bigint_toString position\<rparr>\<rparr>"

definition itemAdded :: "int \<Rightarrow> readEvent" where
  "itemAdded position =
     createReadEvent ''ItemAdded'' (VObj [(''itemId'', VStr ''item-1''), (''quantity'', VNum 1)]) position"

definition itemRemoved :: "int \<Rightarrow> readEvent" where
  "itemRemoved position = createReadEvent ''ItemRemoved'' (VObj [(''itemId'', VStr ''item-1'')]) position"

text \<open>
  The event store mocked by the interceptor's tests: every append succeeds and reports
  \<^verbatim>\<open>{ streamVersion: 10n, nextExpectedStreamVersion: 11n }\<close>.
\<close>

definition mockEventStore :: "(unit, unit) EventStore" where
  "mockEventStore =
     \<lparr>appendToStream = (\<lambda>sname events appendOptions w.
        (Inr \<lparr>nextExpectedStreamVersion = BigIntVersion 11, streamVersion = BigIntVersion 10\<rparr>,
         w))\<rparr>"

text \<open>An event as a caller appends it, without metadata.\<close>

definition plainItemAdded :: event where
  "plainItemAdded =
     \<lparr>type = ''ItemAdded'', data = VObj [(''itemId'', VStr ''item-1''), (''quantity'', VNum 1)]\<rparr>"

text \<open>A client that behaves well, over a given store.\<close>

definition quietWorld :: "(string \<rightharpoonup> jsval) \<Rightarrow> world" where
  "quietWorld st =
     \<lparr>store = st, calls = [], fetches = [], writes = [], offline_throws = [], online_throws = []\<rparr>"

text \<open>The next write is not refused; the next fetch answers.\<close>

definition acceptsWrite :: "world \<Rightarrow> bool" where
  "acceptsWrite w = (case writes w of Refuses e # _ \<Rightarrow> False | _ \<Rightarrow> True)"

definition answersFetch :: "world \<Rightarrow> bool" where
  "answersFetch w = (case fetches w of [] \<Rightarrow> True | Answers # _ \<Rightarrow> True | _ \<Rightarrow> False)"

text \<open>Scenario D: the fetch stalls twice, then answers.\<close>

definition scenarioD :: world where
  "scenarioD =
     \<lparr>store = [''projections/test-counter/stream-1'' \<mapsto> VObj [(''count'', VNum 5)]],
      calls = [], fetches = [Stalls, Stalls, Answers], writes = [],
      offline_throws = [], online_throws = []\<rparr>"

section \<open>Vocabulary of the specification\<close>

text \<open>What a failed attempt fails with: the rejection of the fetch, or the timer's error.\<close>

fun attemptError :: "fetch_outcome \<Rightarrow> js_error option" where
  "attemptError Answers = None"
| "attemptError (Fails e) = Some e"
| "attemptError Stalls = Some (ErrorObj ''Error'' ''Realtime DB read timed out.'')"

text \<open>A fetch that is rejected, before any timer fires, with an \<^verbatim>\<open>Error\<close> that carries the timer's message.\<close>

fun carriesTimerMessage :: "fetch_outcome \<Rightarrow> bool" where
  "carriesTimerMessage (Fails (ErrorObj _ m)) = (m = ''Realtime DB read timed out.'')"
| "carriesTimerMessage _ = False"

text \<open>
  The calls of one retried read as the specification has them, for the attempts that are left
  (three at the start), the outcomes of the coming fetches and the script of \<^verbatim>\<open>goOffline\<close>.
  Every attempt fetches. After an attempt that fails, and before the backoff, the connection is
  reset if and only if the attempt timed out: \<^verbatim>\<open>goOffline\<close>, then \<^verbatim>\<open>goOnline\<close> unless
  \<^verbatim>\<open>goOffline\<close> threw. The backoff is 500 ms times the number of the attempt, and there is none
  after the last attempt.
\<close>

fun readerCalls :: "string \<Rightarrow> nat \<Rightarrow> fetch_outcome list \<Rightarrow> bool list \<Rightarrow> db_call list" where
  "readerCalls path 0 outs offs = []"
| "readerCalls path (Suc left) [] offs = [Once path]"
| "readerCalls path (Suc left) (Answers # rest) offs = [Once path]"
| "readerCalls path (Suc left) (Stalls # rest) offs =
     Once path # GoOffline # (if offs \<noteq> [] \<and> hd offs then [] else [GoOnline])
       @ (if left = 0 then [] else [Sleep (500 * (3 - left))])
       @ readerCalls path left rest (tl offs)"
| "readerCalls path (Suc left) (Fails e # rest) offs =
     Once path # (if left = 0 then [] else [Sleep (500 * (3 - left))])
       @ readerCalls path left rest offs"

text \<open>
  The dispatcher as the specification words it: walk the registered projections in their
  order; one whose interest set shares no event type with the batch is passed over with the
  world untouched; any other is read and applied, and the first failure ends the walk.
\<close>

definition interested :: "RealtimeDBInlineProjectionDefinition \<Rightarrow> readEvent list \<Rightarrow> bool" where
  "interested p events = (set (canHandle p) \<inter> type ` set events \<noteq> {})"

fun dispatchInOrder ::
  "readEvent list \<Rightarrow> RealtimeDBInlineProjectionDefinition list \<Rightarrow> string \<Rightarrow> world
     \<Rightarrow> (js_error + unit) \<times> world" where
  "dispatchInOrder events [] sid w = (Inr (), w)"
| "dispatchInOrder events (p # ps) sid w =
     (if interested p events then
        (case handleSingleProjection p events sid w of
           (Inl err, w1) \<Rightarrow> (Inl err, w1)
         | (Inr _, w1) \<Rightarrow> dispatchInOrder events ps sid w1)
      else dispatchInOrder events ps sid w)"

text \<open>The calls that change the store.\<close>

fun isWrite :: "db_call \<Rightarrow> bool" where
  "isWrite (Set _ _) = True"
| "isWrite (Remove _) = True"
| "isWrite _ = False"

section \<open>Auxiliary notions for the proofs\<close>

text \<open>The world after the \<^verbatim>\<open>catch\<close> block of one failed attempt of the reader.\<close>

definition afterFailure :: "nat \<Rightarrow> js_error \<Rightarrow> world \<Rightarrow> world" where
  "afterFailure attempt error w1 =
     (let w2 = (if isTimeoutError error then resetRealtimeDbConnection w1 else w1)
      in if attempt < length READ_TIMEOUTS_MS - 1 then sleep (500 * (attempt + 1)) w2 else w2)"

text \<open>What the reader throws once the attempts are used up, from the last error it caught.\<close>

definition finalError :: "js_error option \<Rightarrow> js_error" where
  "finalError le =
     (case le of Some (ErrorObj n m) \<Rightarrow> ErrorObj n m
      | _ \<Rightarrow> ErrorObj ''Error'' ''Realtime DB read failed after retries.'')"

section \<open>Properties\<close>

subsection \<open>Decimal strings\<close>

lemma lt10_cases: "n < (10::nat) \<Longrightarrow> n \<in> {0,1,2,3,4,5,6,7,8,9}"
  by auto

lemma digit_val_digit: "n < 10 \<Longrightarrow> digit_val (digit_char n) = Some n"
  by (drule lt10_cases) (auto simp: digit_val_def digit_char_def)

lemma digit_not_ws: "n < 10 \<Longrightarrow> \<not> is_ws (digit_char n)"
  by (drule lt10_cases) (auto simp: is_ws_def digit_char_def)

lemma digit_not_special: "n < 10 \<Longrightarrow> digit_char n \<notin> set ''xXoObB-+''"
  by (drule lt10_cases) (auto simp: digit_char_def)

lemma parse_digits_snoc:
  "parse_digits b acc (cs @ [c]) =
     (case parse_digits b acc cs of None \<Rightarrow> None
      | Some a \<Rightarrow> (case digit_val c of None \<Rightarrow> None
                   | Some d \<Rightarrow> if d < b then Some (a * b + d) else None))"
  by (induction cs arbitrary: acc) (auto split: option.splits)

lemma parse_digits_nat_toString: "parse_digits 10 0 (nat_toString n) = Some n"
proof (induction n rule: nat_toString.induct)
  case (1 n)
  show ?case
  proof (cases "n < 10")
    case True
    then show ?thesis
      by (subst nat_toString.simps) (simp add: digit_val_digit)
  next
    case False
    with 1 have "parse_digits 10 0 (nat_toString (n div 10)) = Some (n div 10)" by simp
    with False show ?thesis
      by (subst nat_toString.simps) (simp add: parse_digits_snoc digit_val_digit)
  qed
qed

lemma nat_toString_nonempty: "nat_toString n \<noteq> []"
  by (subst nat_toString.simps) simp

lemma nat_toString_chars: "set (nat_toString n) \<subseteq> digit_char ` {..<10}"
proof (induction n rule: nat_toString.induct)
  case (1 n)
  show ?case
  proof (cases "n < 10")
    case True
    then show ?thesis
      by (subst nat_toString.simps) simp
  next
    case False
    with 1 have IH: "set (nat_toString (n div 10)) \<subseteq> digit_char ` {..<10}" by simp
    have "n mod 10 < 10" by simp
    with False IH show ?thesis
      by (subst nat_toString.simps) simp
  qed
qed

lemma trim_id:
  assumes ne: "s \<noteq> []" and nows: "\<forall>c \<in> set s. \<not> is_ws c"
  shows "trim s = s"
proof -
  from ne nows have a: "dropWhile is_ws s = s" by (cases s) auto
  from ne nows have "dropWhile is_ws (rev s) = rev s" by (cases "rev s") auto
  with a show ?thesis by (simp add: trim_def)
qed

lemma StringToBigInt_nat_toString: "StringToBigInt (nat_toString n) = Inr (int n)"
proof -
  let ?s = "nat_toString n"
  have chars: "\<forall>c \<in> set ?s. \<exists>d<10. c = digit_char d"
    using nat_toString_chars [of n] by auto
  then have nows: "\<forall>c \<in> set ?s. \<not> is_ws c" by (auto simp: digit_not_ws)
  have tr: "trim ?s = ?s" using nat_toString_nonempty nows by (rule trim_id)
  obtain c cs where s: "?s = c # cs" using nat_toString_nonempty [of n] by (cases ?s) auto
  from chars s obtain d where d: "d < 10" "c = digit_char d" by auto
  from digit_not_special [OF d(1)] d(2) have c: "c \<noteq> CHR ''-''" "c \<noteq> CHR ''+''" by auto
  have hd: "cs \<noteq> [] \<Longrightarrow> hd cs \<notin> set ''xXoObB''"
  proof -
    assume "cs \<noteq> []"
    then have "hd cs \<in> set ?s" using s by (cases cs) auto
    with chars obtain e where "e < 10" "hd cs = digit_char e" by auto
    with digit_not_special [of e] show ?thesis by auto
  qed
  have p: "parse_nat 10 (c # cs) = Some n"
    using parse_digits_nat_toString [of n] s by (simp add: parse_nat_def)
  show ?thesis
    using tr s c hd p by (auto simp: of_parse_def)
qed

lemma StringToBigInt_bigint_toString: "StringToBigInt (bigint_toString p) = Inr p"
proof (cases "p < 0")
  case False
  then show ?thesis
    by (simp add: bigint_toString_def StringToBigInt_nat_toString del: StringToBigInt.simps)
next
  case True
  let ?t = "nat_toString (nat (- p))"
  have chars: "\<forall>c \<in> set ?t. \<exists>d<10. c = digit_char d"
    using nat_toString_chars [of "nat (- p)"] by auto
  moreover have "\<not> is_ws CHR ''-''" by (simp add: is_ws_def)
  ultimately have nows: "\<forall>c \<in> set (CHR ''-'' # ?t). \<not> is_ws c" by (auto simp: digit_not_ws)
  have tr: "trim (CHR ''-'' # ?t) = CHR ''-'' # ?t" using nows by (intro trim_id) simp_all
  have p: "parse_nat 10 ?t = Some (nat (- p))"
    using parse_digits_nat_toString [of "nat (- p)"] nat_toString_nonempty
    by (simp add: parse_nat_def)
  show ?thesis using True tr p by (simp add: bigint_toString_def of_parse_def)
qed

lemma bigint_toString_small:
  "bigint_toString 0 = ''0''" "bigint_toString 1 = ''1''" "bigint_toString 2 = ''2''"
  "bigint_toString 3 = ''3''" "bigint_toString 4 = ''4''" "bigint_toString 5 = ''5''"
  by code_simp+

subsection \<open>The store client\<close>

lemma ref_set_accepts:
  "acceptsWrite w \<Longrightarrow>
   ref_set path v w =
     (Inr (), w\<lparr>calls := calls w @ [Set path v], writes := tl (writes w),
               store := (store w)(path \<mapsto> v)\<rparr>)"
  by (auto simp: ref_set_def acceptsWrite_def Let_def split: list.splits write_outcome.splits)

lemma ref_remove_accepts:
  "acceptsWrite w \<Longrightarrow>
   ref_remove path w =
     (Inr (), w\<lparr>calls := calls w @ [Remove path], writes := tl (writes w),
               store := (store w)(path := None)\<rparr>)"
  by (auto simp: ref_remove_def acceptsWrite_def Let_def split: list.splits write_outcome.splits)

lemma acceptsWrite_quietWorld: "acceptsWrite (quietWorld st)"
  by (simp add: acceptsWrite_def quietWorld_def)

subsection \<open>The applier\<close>

lemma handle_applier:
  "handle (realtimeDBInlineProjection options) events ctx w =
     (if events = [] then (Inr (), w)
      else
        (case evolveAll (evolve options) (workingState options (document ctx)) events of
           Inl err \<Rightarrow> (Inl err, w)
         | Inr state \<Rightarrow>
             if state \<noteq> VNull then
               ref_set (projectionRef ctx)
                 (withMetadata state (readModelMetadata options (streamId ctx) events)) w
             else ref_remove (projectionRef ctx) w))"
  by (simp add: realtimeDBInlineProjection_def)

lemma name_applier: "name (realtimeDBInlineProjection options) = projectionName options"
  by (simp add: realtimeDBInlineProjection_def)

text \<open>
  C1. Whenever the fold of a non-empty batch from the working state ends in a state that is not
  \<^verbatim>\<open>null\<close> (and the store takes the write), the applier makes exactly one \<^verbatim>\<open>set\<close> call on the
  projection's reference, and what is stored there afterwards is the final state with its
  \<^verbatim>\<open>_metadata\<close> property set to the envelope: the stream id, the definition's name, its schema
  version (1 by default) and the last event's stream position as a decimal string. The write
  replaces whatever was stored at the path; nothing of the previous document survives unless
  the final state carries it.
\<close>

theorem applier_persists_final_state_with_metadata:
  assumes "events \<noteq> []"
    and "evolveAll (evolve options) (workingState options (document ctx)) events = Inr state"
    and "state \<noteq> VNull"
    and "acceptsWrite w"
  shows "handle (realtimeDBInlineProjection options) events ctx w =
           (let envelope =
                  VObj [(''streamId'', VStr (streamId ctx)),
                        (''name'', VStr (name (realtimeDBInlineProjection options))),
                        (''schemaVersion'',
                           VNum (case schemaVersion options of None \<Rightarrow> 1 | Some v \<Rightarrow> v)),
                        (''streamPosition'',
                           VStr (bigint_toString (streamPosition (metadata (last events)))))];
                persisted = VObj (AList.update ''_metadata'' envelope (spread state))
            in (Inr (),
                w\<lparr>calls := calls w @ [Set (projectionRef ctx) persisted],
                  writes := tl (writes w),
                  store := (store w)(projectionRef ctx \<mapsto> persisted)\<rparr>))"
  using assms
  by (simp add: handle_applier ref_set_accepts withMetadata_def readModelMetadata_def name_applier
      schemaVersionOf_def Let_def)

theorem applier_persists_witness:
  "store (snd (handle (realtimeDBInlineProjection counterOptions) [itemAdded 0, itemAdded 1]
                 \<lparr>document = VNull, streamId = ''stream-1'',
                  projectionRef = ''projections/test-counter/stream-1''\<rparr>
                 (quietWorld Map.empty)))
     ''projections/test-counter/stream-1'' =
   Some (VObj [(''count'', VNum 2),
               (''_metadata'', VObj [(''streamId'', VStr ''stream-1''),
                                     (''name'', VStr ''test-counter''),
                                     (''schemaVersion'', VNum 1),
                                     (''streamPosition'', VStr ''1'')])])"
proof -
  let ?events = "[itemAdded 0, itemAdded 1]"
  let ?ctx = "\<lparr>document = VNull, streamId = ''stream-1'',
               projectionRef = ''projections/test-counter/stream-1''\<rparr>"
  have h1: "?events \<noteq> []" by simp
  have h2: "evolveAll (evolve counterOptions) (workingState counterOptions (document ?ctx)) ?events
              = Inr (VObj [(''count'', VNum 2)])"
    by (simp add: counterOptions_def workingState_def rawDocument_def itemAdded_def
        createReadEvent_def counterStep_def)
  have h3: "VObj [(''count'', VNum 2)] \<noteq> VNull" by simp
  show ?thesis
    using applier_persists_final_state_with_metadata
            [OF h1 h2 h3 acceptsWrite_quietWorld [of Map.empty]]
    by (simp add: counterOptions_def name_applier projectionName_def Let_def
        itemAdded_def createReadEvent_def bigint_toString_small)
qed

lemma filter_no_metadata:
  "''_metadata'' \<notin> fst ` set kvs \<Longrightarrow> filter (\<lambda>kv. fst kv \<noteq> ''_metadata'') kvs = kvs"
  by (induction kvs) auto

lemma rawDocument_VObj:
  "rawDocument (VObj kvs) = VObj (filter (\<lambda>kv. fst kv \<noteq> ''_metadata'') kvs)"
  by (simp add: rawDocument_def filter_no_metadata)

lemma rawDocument_VNull: "rawDocument VNull = VNull"
  by (simp add: rawDocument_def)

lemma ref_once_answers:
  "answersFetch w \<Longrightarrow>
   ref_once path w =
     (Resolved (store w path), w\<lparr>calls := calls w @ [Once path], fetches := tl (fetches w)\<rparr>)"
  by (auto simp: ref_once_def answersFetch_def Let_def split: list.splits fetch_outcome.splits)

lemma read_answers:
  "answersFetch w \<Longrightarrow>
   readSnapshotWithRetry path w =
     (Inr (store w path), w\<lparr>calls := calls w @ [Once path], fetches := tl (fetches w)\<rparr>)"
  by (simp add: readSnapshotWithRetry_def readSnapshotLoop.simps [of 0] READ_TIMEOUTS_MS_def
      ref_once_answers)

lemma answersFetch_quietWorld: "answersFetch (quietWorld st)"
  by (simp add: answersFetch_def quietWorld_def)

text \<open>
  C5. The state the fold starts from. When nothing is stored (\<^verbatim>\<open>null\<close>) it is \<^verbatim>\<open>initialState()\<close>
  for a definition that has one and \<^verbatim>\<open>null\<close> for a definition that has none. When an object
  is stored it is that object without its \<^verbatim>\<open>_metadata\<close> property, whether or not the
  definition has an initial state. Scenario B, run through the dispatcher: the counter with
  initial state \<^verbatim>\<open>{ count: 0 }\<close>, the stored document \<^verbatim>\<open>{ count: 5, _metadata: { streamPosition: "2" } }\<close>
  and one \<^verbatim>\<open>ItemAdded\<close> at position 3 leave \<^verbatim>\<open>{ count: 6 }\<close> with stream position \<^verbatim>\<open>"3"\<close>
  in the store.
\<close>

theorem working_state_from_stored_document:
  "workingState options VNull = (case initialState options of Some init \<Rightarrow> init () | None \<Rightarrow> VNull)
   \<and> workingState options (VObj kvs) = VObj (filter (\<lambda>kv. fst kv \<noteq> ''_metadata'') kvs)
   \<and> handleInlineProjections [itemAdded 3] [realtimeDBInlineProjection counterOptions] ''stream-1''
        (quietWorld [''projections/test-counter/stream-1'' \<mapsto>
           VObj [(''count'', VNum 5), (''_metadata'', VObj [(''streamPosition'', VStr ''2'')])]])
      = (Inr (),
         \<lparr>store = [''projections/test-counter/stream-1'' \<mapsto>
             VObj [(''count'', VNum 6),
                   (''_metadata'', VObj [(''streamId'', VStr ''stream-1''),
                                         (''name'', VStr ''test-counter''),
                                         (''schemaVersion'', VNum 1),
                                         (''streamPosition'', VStr ''3'')])]],
          calls = [Once ''projections/test-counter/stream-1'',
                   Set ''projections/test-counter/stream-1''
                     (VObj [(''count'', VNum 6),
                            (''_metadata'', VObj [(''streamId'', VStr ''stream-1''),
                                                  (''name'', VStr ''test-counter''),
                                                  (''schemaVersion'', VNum 1),
                                                  (''streamPosition'', VStr ''3'')])])],
          fetches = [], writes = [], offline_throws = [], online_throws = []\<rparr>)"
proof (intro conjI)
  show "workingState options VNull = (case initialState options of Some init \<Rightarrow> init () | None \<Rightarrow> VNull)"
    by (simp add: workingState_def rawDocument_VNull split: option.splits)
  show "workingState options (VObj kvs) = VObj (filter (\<lambda>kv. fst kv \<noteq> ''_metadata'') kvs)"
    by (simp add: workingState_def rawDocument_VObj split: option.splits)
  let ?w = "quietWorld [''projections/test-counter/stream-1'' \<mapsto>
           VObj [(''count'', VNum 5), (''_metadata'', VObj [(''streamPosition'', VStr ''2'')])]]"
  have m: "matchingProjections [itemAdded 3] [realtimeDBInlineProjection counterOptions]
             = [realtimeDBInlineProjection counterOptions]"
    by (simp add: matchingProjections_def itemAdded_def createReadEvent_def
        realtimeDBInlineProjection_def counterOptions_def)
  have p: "projectionPath (name (realtimeDBInlineProjection counterOptions)) ''stream-1''
             = ''projections/test-counter/stream-1''"
    by (simp add: projectionPath_def name_applier projectionName_def counterOptions_def)
  have r: "readSnapshotWithRetry ''projections/test-counter/stream-1'' ?w =
      (Inr (Some (VObj [(''count'', VNum 5), (''_metadata'', VObj [(''streamPosition'', VStr ''2'')])])),
       ?w\<lparr>calls := [Once ''projections/test-counter/stream-1'']\<rparr>)"
    by (simp add: read_answers [OF answersFetch_quietWorld]) (simp add: quietWorld_def)
  show "handleInlineProjections [itemAdded 3] [realtimeDBInlineProjection counterOptions] ''stream-1'' ?w
      = (Inr (),
         \<lparr>store = [''projections/test-counter/stream-1'' \<mapsto>
             VObj [(''count'', VNum 6),
                   (''_metadata'', VObj [(''streamId'', VStr ''stream-1''),
                                         (''name'', VStr ''test-counter''),
                                         (''schemaVersion'', VNum 1),
                                         (''streamPosition'', VStr ''3'')])]],
          calls = [Once ''projections/test-counter/stream-1'',
                   Set ''projections/test-counter/stream-1''
                     (VObj [(''count'', VNum 6),
                            (''_metadata'', VObj [(''streamId'', VStr ''stream-1''),
                                                  (''name'', VStr ''test-counter''),
                                                  (''schemaVersion'', VNum 1),
                                                  (''streamPosition'', VStr ''3'')])])],
          fetches = [], writes = [], offline_throws = [], online_throws = []\<rparr>)"
    unfolding handleInlineProjections_def m
    apply (simp add: handleSingleProjection_def p r snapshot_val_def handle_applier)
    apply (simp add: workingState_def rawDocument_VObj counterOptions_def itemAdded_def
        createReadEvent_def counterStep_def)
    apply (simp add: ref_set_def quietWorld_def withMetadata_def readModelMetadata_def
        projectionName_def schemaVersionOf_def bigint_toString_small Let_def)
    done
qed

theorem working_state_witness:
  "workingState counterOptions VNull = VObj [(''count'', VNum 0)]
   \<and> workingState nullableOptions VNull = VNull
   \<and> workingState counterOptions
        (VObj [(''count'', VNum 5), (''_metadata'', VObj [(''streamPosition'', VStr ''2'')])])
      = VObj [(''count'', VNum 5)]
   \<and> workingState nullableOptions
        (VObj [(''value'', VStr ''created''), (''_metadata'', VObj [(''streamPosition'', VStr ''2'')])])
      = VObj [(''value'', VStr ''created'')]"
  using working_state_from_stored_document
          [of counterOptions
              "[(''count'', VNum 5), (''_metadata'', VObj [(''streamPosition'', VStr ''2'')])]"]
        working_state_from_stored_document
          [of nullableOptions
              "[(''value'', VStr ''created''),
                (''_metadata'', VObj [(''streamPosition'', VStr ''2'')])]"]
  by (simp add: counterOptions_def nullableOptions_def)

text \<open>
  C3, as the code has it. The fold passes a \<^verbatim>\<open>null\<close> that \<^verbatim>\<open>evolve\<close> returns on to the next
  event like any other state, so only the state after the last event decides: when the fold
  of a non-empty batch ends in \<^verbatim>\<open>null\<close> (and the store takes the write), the applier makes
  exactly one \<^verbatim>\<open>remove\<close> call on the projection's reference and nothing is stored there
  afterwards, whatever was stored before.
\<close>

theorem applier_removes_when_final_state_null:
  assumes "events \<noteq> []"
    and "evolveAll (evolve options) (workingState options (document ctx)) events = Inr VNull"
    and "acceptsWrite w"
  shows "handle (realtimeDBInlineProjection options) events ctx w =
           (Inr (),
            w\<lparr>calls := calls w @ [Remove (projectionRef ctx)],
              writes := tl (writes w),
              store := (store w)(projectionRef ctx := None)\<rparr>)"
  using assms by (simp add: handle_applier ref_remove_accepts)

text \<open>
  A \<^verbatim>\<open>null\<close> in the middle of the fold does not delete the document. With the nullable
  projection of the fixtures and the batch \<^verbatim>\<open>ItemAdded\<close>, \<^verbatim>\<open>ItemRemoved\<close>, \<^verbatim>\<open>ItemAdded\<close> on an
  empty store, \<^verbatim>\<open>evolve\<close> returns \<^verbatim>\<open>null\<close> at the second event, the third event creates the
  state again, and the applier makes one \<^verbatim>\<open>set\<close> call and no \<^verbatim>\<open>remove\<close>: the document is stored.
\<close>

theorem null_mid_fold_counterexample:
  "evolveAll (evolve nullableOptions) (workingState nullableOptions VNull)
      [itemAdded 0, itemRemoved 1] = Inr VNull
   \<and> handle (realtimeDBInlineProjection nullableOptions)
        [itemAdded 0, itemRemoved 1, itemAdded 2]
        \<lparr>document = VNull, streamId = ''stream-1'',
         projectionRef = ''projections/test-nullable/stream-1''\<rparr>
        (quietWorld Map.empty)
      = (Inr (),
         \<lparr>store = [''projections/test-nullable/stream-1'' \<mapsto>
             VObj [(''value'', VStr ''created''),
                   (''_metadata'', VObj [(''streamId'', VStr ''stream-1''),
                                         (''name'', VStr ''test-nullable''),
                                         (''schemaVersion'', VNum 1),
                                         (''streamPosition'', VStr ''2'')])]],
          calls = [Set ''projections/test-nullable/stream-1''
                     (VObj [(''value'', VStr ''created''),
                            (''_metadata'', VObj [(''streamId'', VStr ''stream-1''),
                                                  (''name'', VStr ''test-nullable''),
                                                  (''schemaVersion'', VNum 1),
                                                  (''streamPosition'', VStr ''2'')])])],
          fetches = [], writes = [], offline_throws = [], online_throws = []\<rparr>)"
  by (simp add: handle_applier workingState_def rawDocument_VNull nullableOptions_def
      itemAdded_def itemRemoved_def createReadEvent_def ref_set_def quietWorld_def
      withMetadata_def readModelMetadata_def projectionName_def schemaVersionOf_def
      bigint_toString_small Let_def)

theorem applier_removes_witness:
  "handle (realtimeDBInlineProjection nullableOptions) [itemRemoved 5]
     \<lparr>document = VObj [(''value'', VStr ''created''),
                       (''_metadata'', VObj [(''streamPosition'', VStr ''4'')])],
      streamId = ''stream-1'', projectionRef = ''projections/test-nullable/stream-1''\<rparr>
     (quietWorld [''projections/test-nullable/stream-1'' \<mapsto>
        VObj [(''value'', VStr ''created''),
              (''_metadata'', VObj [(''streamPosition'', VStr ''4'')])]])
   = (Inr (),
      \<lparr>store = Map.empty,
       calls = [Remove ''projections/test-nullable/stream-1''],
       fetches = [], writes = [], offline_throws = [], online_throws = []\<rparr>)"
proof -
  let ?doc = "VObj [(''value'', VStr ''created''),
                    (''_metadata'', VObj [(''streamPosition'', VStr ''4'')])]"
  let ?ctx = "\<lparr>document = ?doc, streamId = ''stream-1'',
               projectionRef = ''projections/test-nullable/stream-1''\<rparr>"
  have h1: "[itemRemoved 5] \<noteq> []" by simp
  have h2: "evolveAll (evolve nullableOptions) (workingState nullableOptions (document ?ctx))
              [itemRemoved 5] = Inr VNull"
    by (simp add: workingState_def rawDocument_VObj nullableOptions_def itemRemoved_def
        createReadEvent_def)
  show ?thesis
    using applier_removes_when_final_state_null
            [OF h1 h2 acceptsWrite_quietWorld [of "[''projections/test-nullable/stream-1'' \<mapsto> ?doc]"]]
    by (simp add: quietWorld_def)
qed

lemma reset_fields [simp]:
  "fetches (resetRealtimeDbConnection w) = fetches w"
  "store (resetRealtimeDbConnection w) = store w"
  "writes (resetRealtimeDbConnection w) = writes w"
  "offline_throws (resetRealtimeDbConnection w) = tl (offline_throws w)"
  "filter isWrite (calls (resetRealtimeDbConnection w)) = filter isWrite (calls w)"
  "calls (resetRealtimeDbConnection w) =
     calls w @ GoOffline # (if offline_throws w \<noteq> [] \<and> hd (offline_throws w) then [] else [GoOnline])"
  by (auto simp: resetRealtimeDbConnection_def goOffline_def goOnline_def
      split: list.splits bool.splits)

lemma sleep_fields [simp]:
  "fetches (sleep ms w) = fetches w"
  "store (sleep ms w) = store w"
  "writes (sleep ms w) = writes w"
  "offline_throws (sleep ms w) = offline_throws w"
  "filter isWrite (calls (sleep ms w)) = filter isWrite (calls w)"
  "calls (sleep ms w) = calls w @ [Sleep ms]"
  by (simp_all add: sleep_def)

lemma ref_once_fields [simp]:
  "fetches (snd (ref_once path w)) = tl (fetches w)"
  "store (snd (ref_once path w)) = store w"
  "writes (snd (ref_once path w)) = writes w"
  "offline_throws (snd (ref_once path w)) = offline_throws w"
  "filter isWrite (calls (snd (ref_once path w))) = filter isWrite (calls w)"
  "calls (snd (ref_once path w)) = calls w @ [Once path]"
  by (auto simp: ref_once_def Let_def split: list.splits fetch_outcome.splits)

lemma attempt_outcome:
  "withTimeout (fst (ref_once path w)) ms =
     (case fetches w of
        [] \<Rightarrow> Inr (store w path)
      | Answers # _ \<Rightarrow> Inr (store w path)
      | Fails e # _ \<Rightarrow> Inl e
      | Stalls # _ \<Rightarrow> Inl (ErrorObj ''Error'' ''Realtime DB read timed out.''))"
  by (auto simp: ref_once_def Let_def TIMEOUT_ERROR_MESSAGE_def split: list.splits fetch_outcome.splits)


lemma afterFailure_fields [simp]:
  "fetches (afterFailure attempt error w) = fetches w"
  "store (afterFailure attempt error w) = store w"
  "writes (afterFailure attempt error w) = writes w"
  "offline_throws (afterFailure attempt error w) =
     (if isTimeoutError error then tl (offline_throws w) else offline_throws w)"
  "filter isWrite (calls (afterFailure attempt error w)) = filter isWrite (calls w)"
  "calls (afterFailure attempt error w) =
     calls w
       @ (if isTimeoutError error
          then GoOffline # (if offline_throws w \<noteq> [] \<and> hd (offline_throws w) then [] else [GoOnline])
          else [])
       @ (if attempt < 2 then [Sleep (500 * (attempt + 1))] else [])"
  by (simp_all add: afterFailure_def Let_def READ_TIMEOUTS_MS_def)

lemma loop_unfold:
  "readSnapshotLoop attempt lastError path w =
     (if attempt < 3 then
        (case withTimeout (fst (ref_once path w)) (READ_TIMEOUTS_MS ! attempt) of
           Inr snapshot \<Rightarrow> (Inr snapshot, snd (ref_once path w))
         | Inl error \<Rightarrow>
             readSnapshotLoop (Suc attempt) (Some error) path
               (afterFailure attempt error (snd (ref_once path w))))
      else
        (Inl (case lastError of
                Some (ErrorObj n m) \<Rightarrow> ErrorObj n m
              | _ \<Rightarrow> ErrorObj ''Error'' ''Realtime DB read failed after retries.''), w))"
  by (subst readSnapshotLoop.simps)
     (simp add: READ_TIMEOUTS_MS_def afterFailure_def split: prod.splits sum.splits)

lemma isTimeoutError_carries: "isTimeoutError e = carriesTimerMessage (Fails e)"
  by (cases e) (simp_all add: TIMEOUT_ERROR_MESSAGE_def)

lemma isTimeoutError_timer: "isTimeoutError (ErrorObj ''Error'' ''Realtime DB read timed out.'')"
  by (simp add: TIMEOUT_ERROR_MESSAGE_def)

lemma loop_calls:
  "list_all (\<lambda>out. \<not> carriesTimerMessage out) (take (3 - attempt) (fetches w)) \<Longrightarrow>
   calls (snd (readSnapshotLoop attempt le path w)) =
     calls w @ readerCalls path (3 - attempt) (fetches w) (offline_throws w)"
proof (induction "3 - attempt" arbitrary: attempt le w)
  case 0
  then show ?case by (subst loop_unfold) simp
next
  case (Suc n)
  then have lt: "attempt < 3" and n: "n = 3 - Suc attempt" and m: "3 - attempt = Suc n"
    by simp_all
  have sl: "(n = 0) = (\<not> attempt < 2)" "3 - n = attempt + 1" "2 - attempt = n"
    "\<not> attempt < 2 \<Longrightarrow> readerCalls path n rest' offs' = []" for rest' offs'
    using lt n by auto
  show ?case
  proof (cases "fetches w")
    case Nil
    with lt show ?thesis by (subst loop_unfold) (simp add: attempt_outcome m)
  next
    case (Cons out rest)
    with Suc.prems m have clean: "\<not> carriesTimerMessage out"
      and rest: "list_all (\<lambda>out. \<not> carriesTimerMessage out) (take (3 - Suc attempt) rest)"
      using n by simp_all
    show ?thesis
    proof (cases out)
      case Answers
      with Cons lt show ?thesis by (subst loop_unfold) (simp add: attempt_outcome m)
    next
      case (Fails e)
      with clean have e: "\<not> isTimeoutError e" by (simp add: isTimeoutError_carries)
      from Cons rest have "list_all (\<lambda>out. \<not> carriesTimerMessage out)
          (take (3 - Suc attempt) (fetches (afterFailure attempt e (snd (ref_once path w)))))"
        by simp
      from Suc.hyps(1) [OF n this] Cons Fails lt e show ?thesis
        by (subst loop_unfold) (simp add: attempt_outcome m sl)
    next
      case Stalls
      from Cons rest have "list_all (\<lambda>out. \<not> carriesTimerMessage out)
          (take (3 - Suc attempt)
             (fetches (afterFailure attempt (ErrorObj ''Error'' ''Realtime DB read timed out.'')
                         (snd (ref_once path w)))))"
        by simp
      from Suc.hyps(1) [OF n this] Cons Stalls lt show ?thesis
        by (subst loop_unfold) (simp add: attempt_outcome m sl TIMEOUT_ERROR_MESSAGE_def)
    qed
  qed
qed

lemma loop_store:
  "store (snd (readSnapshotLoop attempt le path w)) = store w
   \<and> writes (snd (readSnapshotLoop attempt le path w)) = writes w
   \<and> filter isWrite (calls (snd (readSnapshotLoop attempt le path w))) = filter isWrite (calls w)"
proof (induction "3 - attempt" arbitrary: attempt le w)
  case 0
  then show ?case by (subst (1 2 3) loop_unfold) simp
next
  case (Suc n)
  then have lt: "attempt < 3" and n: "n = 3 - Suc attempt" by simp_all
  show ?case
    using lt Suc.hyps(1) [OF n]
    by (subst (1 2 3) loop_unfold) (simp split: sum.splits)
qed


lemma loop_result:
  "fst (readSnapshotLoop attempt le path w) =
     (let failed = takeWhile (\<lambda>out. out \<noteq> Answers) (take (3 - attempt) (fetches w)) in
      if length failed < 3 - attempt then Inr (store w path)
      else Inl (finalError (if failed = [] then le else attemptError (last failed))))"
proof (induction "3 - attempt" arbitrary: attempt le w)
  case 0
  then show ?case by (subst loop_unfold) (simp add: finalError_def)
next
  case (Suc n)
  then have lt: "attempt < 3" and n: "n = 3 - Suc attempt" by simp_all
  have tk: "\<And>x xs. take (3 - attempt) (x # xs) = x # take (3 - Suc attempt) xs"
    using lt by (simp add: take_Cons')
  have less: "\<And>k. (Suc k < 3 - attempt) = (k < 3 - Suc attempt)"
    using lt by auto
  show ?case
  proof (cases "fetches w")
    case Nil
    with lt show ?thesis by (subst loop_unfold) (simp add: attempt_outcome)
  next
    case (Cons out rest)
    show ?thesis
    proof (cases out)
      case Answers
      with Cons lt show ?thesis by (subst loop_unfold) (simp add: attempt_outcome tk)
    next
      case (Fails e)
      with Cons lt Suc.hyps(1) [OF n] show ?thesis
        by (subst loop_unfold) (simp add: attempt_outcome tk less Let_def)
    next
      case Stalls
      with Cons lt Suc.hyps(1) [OF n] show ?thesis
        by (subst loop_unfold) (simp add: attempt_outcome tk less Let_def)
    qed
  qed
qed

lemma loop_reset_scripts:
  "fst (readSnapshotLoop attempt le path (w\<lparr>offline_throws := a, online_throws := b\<rparr>)) =
   fst (readSnapshotLoop attempt le path w)"
  by (simp add: loop_result Let_def)

subsection \<open>The reader\<close>

text \<open>
  As long as no fetch is rejected with an \<^verbatim>\<open>Error\<close> that carries the timer's message, the
  reader makes exactly the calls the specification has: a reset, \<^verbatim>\<open>goOffline\<close> then
  \<^verbatim>\<open>goOnline\<close>, after every attempt that timed out and after no other, whatever the reset
  itself does.
\<close>

lemma reader_calls_without_collision:
  "list_all (\<lambda>out. \<not> carriesTimerMessage out) (take 3 (fetches w)) \<Longrightarrow>
   calls (snd (readSnapshotWithRetry path w)) =
     calls w @ readerCalls path 3 (fetches w) (offline_throws w)"
  using loop_calls [of 0 w None path] by (simp add: readSnapshotWithRetry_def)

text \<open>
  Scenario D: the fetch times out on the first and on the second attempt and answers on the
  third. The read returns what is stored, and the reset was made twice.
\<close>

lemma scenario_D:
  "fst (readSnapshotWithRetry ''projections/test-counter/stream-1'' scenarioD) =
     Inr (Some (VObj [(''count'', VNum 5)]))
   \<and> calls (snd (readSnapshotWithRetry ''projections/test-counter/stream-1'' scenarioD)) =
       [Once ''projections/test-counter/stream-1'', GoOffline, GoOnline, Sleep 500,
        Once ''projections/test-counter/stream-1'', GoOffline, GoOnline, Sleep 1000,
        Once ''projections/test-counter/stream-1'']"
proof -
  have c: "list_all (\<lambda>out. \<not> carriesTimerMessage out) (take 3 (fetches scenarioD))"
    by (simp add: scenarioD_def)
  have "fst (readSnapshotWithRetry ''projections/test-counter/stream-1'' scenarioD) =
     Inr (Some (VObj [(''count'', VNum 5)]))"
    using loop_result [of 0 None "''projections/test-counter/stream-1''" scenarioD]
    by (simp add: readSnapshotWithRetry_def scenarioD_def)
  with reader_calls_without_collision [OF c, of "''projections/test-counter/stream-1''"]
  show ?thesis
    by (simp add: scenarioD_def eval_nat_numeral)
qed

subsection \<open>The dispatcher\<close>

lemma matching_interested:
  "matchingProjections events allProjections = filter (\<lambda>p. interested p events) allProjections"
proof -
  have "\<And>p. list_ex (\<lambda>ty. List.member (map type events) ty) (canHandle p) = interested p events"
    by (auto simp: list_ex_iff interested_def)
  then show ?thesis by (simp add: matchingProjections_def)
qed

lemma handleEach_append:
  "handleEach (xs @ ys) events sid w =
     (case handleEach xs events sid w of
        (Inl err, w1) \<Rightarrow> (Inl err, w1)
      | (Inr _, w1) \<Rightarrow> handleEach ys events sid w1)"
  by (induction xs arbitrary: w) (auto split: prod.splits sum.splits)

lemma handleEach_dispatchInOrder:
  "handleEach (filter (\<lambda>p. interested p events) ps) events sid w = dispatchInOrder events ps sid w"
  by (induction ps arbitrary: w) (auto split: prod.splits sum.splits)

text \<open>
  C4. The dispatcher does what a walk over the registered projections in their order does,
  which reads and applies a projection when its interest set and the event types of the batch
  have an element in common and passes it over, world untouched, when they have none. A
  projection of the second kind can be taken out of the list, wherever it stands, without
  changing the outcome: no read is made for it and its handler is not called.
\<close>

theorem dispatch_visits_interested_projections_in_order:
  "handleInlineProjections events allProjections sid w = dispatchInOrder events allProjections sid w
   \<and> (\<not> interested p events \<longrightarrow>
        handleInlineProjections events (before @ p # after) sid w =
        handleInlineProjections events (before @ after) sid w)"
  by (simp add: handleInlineProjections_def matching_interested handleEach_dispatchInOrder)

text \<open>
  C9. On an empty batch no projection matches, the dispatcher returns normally and leaves the
  world as it was: no read, no write, no call at all. The handler built by the factory,
  called with no events, returns at once and leaves the world as it was, whatever \<^verbatim>\<open>evolve\<close>
  would do.
\<close>

theorem empty_batch_is_a_no_op:
  "matchingProjections [] allProjections = []
   \<and> handleInlineProjections [] allProjections sid w = (Inr (), w)
   \<and> handle (realtimeDBInlineProjection options) [] ctx w = (Inr (), w)"
  by (simp add: handleInlineProjections_def matching_interested interested_def handle_applier)

lemma applier_failure_keeps_store:
  "handle (realtimeDBInlineProjection options) events ctx w = (Inl err, w') \<Longrightarrow> store w' = store w"
  by (auto simp: handle_applier ref_set_def ref_remove_def Let_def
      split: if_splits sum.splits list.splits write_outcome.splits)

lemma read_keeps_store:
  "readSnapshotWithRetry path w = (r, w') \<Longrightarrow> store w' = store w"
  using loop_store [of 0 None path w] by (simp add: readSnapshotWithRetry_def)

lemma single_applier_failure_keeps_store:
  assumes "handleSingleProjection (realtimeDBInlineProjection options) events sid w = (Inl err, w')"
  shows "store w' = store w"
proof -
  let ?path = "projectionPath (name (realtimeDBInlineProjection options)) sid"
  obtain r w1 where r: "readSnapshotWithRetry ?path w = (r, w1)" by (cases "readSnapshotWithRetry ?path w")
  then have s1: "store w1 = store w" by (rule read_keeps_store)
  show ?thesis
  proof (cases r)
    case (Inl e)
    with assms r s1 show ?thesis by (simp add: handleSingleProjection_def Let_def)
  next
    case (Inr snapshot)
    with assms r have "handle (realtimeDBInlineProjection options) events
        \<lparr>document = nullish (snapshot_val snapshot) VNull, streamId = sid, projectionRef = ?path\<rparr> w1
        = (Inl err, w')"
      by (simp add: handleSingleProjection_def Let_def)
    then have "store w' = store w1" by (rule applier_failure_keeps_store)
    with s1 show ?thesis by simp
  qed
qed

text \<open>
  C6. When the matching projections before some projection are handled without failure and
  the read or the handler of that projection throws, the dispatch ends with the thrown error
  in the world that the failed step left: nothing is done for the matching projections after
  it, and nothing is undone. When the failing projection was built by the factory, its failed
  step did not change the store, so that everything the earlier projections wrote is still
  there.
\<close>

theorem dispatch_stops_at_first_failure:
  assumes "matchingProjections events allProjections = earlier @ p # later"
    and "handleEach earlier events sid w = (Inr (), w1)"
    and "handleSingleProjection p events sid w1 = (Inl err, w2)"
  shows "handleInlineProjections events allProjections sid w = (Inl err, w2)
         \<and> (\<forall>options. p = realtimeDBInlineProjection options \<longrightarrow> store w2 = store w1)"
  using assms
  by (auto simp: handleInlineProjections_def handleEach_append
      dest: single_applier_failure_keeps_store)

text \<open>
  C8, as the code has it. When the matching projections before some projection are handled
  without failure and the three fetches for that projection all fail, the reader throws what
  the third attempt failed with if that is an \<^verbatim>\<open>Error\<close>; if the third attempt failed with a
  value that is not an \<^verbatim>\<open>Error\<close>, the reader throws a new \<^verbatim>\<open>Error\<close> with the message
  \<^verbatim>\<open>Realtime DB read failed after retries.\<close> instead of that value. The dispatcher ends with the
  error the reader threw, in the world the reader left: the store is as the earlier
  projections left it, no \<^verbatim>\<open>set\<close> or \<^verbatim>\<open>remove\<close> call was added, the handler of the projection
  was not called and nothing is done for the projections after it.
\<close>

theorem reader_gives_up_after_three_failures:
  assumes "matchingProjections events allProjections = earlier @ p # later"
    and "handleEach earlier events sid w = (Inr (), w1)"
    and "fetches w1 = o1 # o2 # o3 # rest"
    and "attemptError o1 = Some e1" and "attemptError o2 = Some e2"
    and "attemptError o3 = Some e3"
  shows "fst (readSnapshotWithRetry path w1) =
           Inl (case e3 of
                  ErrorObj n m \<Rightarrow> ErrorObj n m
                | NonError v \<Rightarrow> ErrorObj ''Error'' ''Realtime DB read failed after retries.'')
         \<and> handleInlineProjections events allProjections sid w =
             (Inl (case e3 of
                     ErrorObj n m \<Rightarrow> ErrorObj n m
                   | NonError v \<Rightarrow> ErrorObj ''Error'' ''Realtime DB read failed after retries.''),
              snd (readSnapshotWithRetry (projectionPath (name p) sid) w1))
         \<and> store (snd (handleInlineProjections events allProjections sid w)) = store w1
         \<and> filter isWrite (calls (snd (handleInlineProjections events allProjections sid w))) =
             filter isWrite (calls w1)"
proof -
  let ?e = "case e3 of
              ErrorObj n m \<Rightarrow> ErrorObj n m
            | NonError v \<Rightarrow> ErrorObj ''Error'' ''Realtime DB read failed after retries.''"
  from assms(4-6) have ne: "o1 \<noteq> Answers" "o2 \<noteq> Answers" "o3 \<noteq> Answers" by auto
  have r: "\<And>path. fst (readSnapshotWithRetry path w1) = Inl ?e"
    using assms(3,6) ne loop_result [of 0 None _ w1]
    by (simp add: readSnapshotWithRetry_def Let_def finalError_def split: js_error.splits)
  have d: "handleInlineProjections events allProjections sid w =
             (Inl ?e, snd (readSnapshotWithRetry (projectionPath (name p) sid) w1))"
  proof -
    obtain w2 where w2: "readSnapshotWithRetry (projectionPath (name p) sid) w1 = (Inl ?e, w2)"
      using r [of "projectionPath (name p) sid"]
      by (cases "readSnapshotWithRetry (projectionPath (name p) sid) w1") simp
    have "handleInlineProjections events allProjections sid w = (Inl ?e, w2)"
      using assms(1,2) w2
      by (simp add: handleInlineProjections_def handleEach_append handleSingleProjection_def
          Let_def)
    with w2 show ?thesis by simp
  qed
  show ?thesis
    using r [of path] d loop_store [of 0 None "projectionPath (name p) sid" w1]
    by (simp add: readSnapshotWithRetry_def)
qed

text \<open>
  The value the last attempt failed with is not always what the reader throws. The third
  fetch is rejected with the string \<^verbatim>\<open>boom\<close>: that is what the reader caught last, and it
  throws the new \<^verbatim>\<open>Error\<close>.
\<close>

theorem reader_replaces_non_error_counterexample:
  "attemptError (Fails (NonError (VStr ''boom''))) = Some (NonError (VStr ''boom''))
   \<and> fst (readSnapshotWithRetry ''projections/test-counter/stream-1''
        ((quietWorld Map.empty)
           \<lparr>fetches := [Stalls, Stalls, Fails (NonError (VStr ''boom''))]\<rparr>))
      = Inl (ErrorObj ''Error'' ''Realtime DB read failed after retries.'')
   \<and> fst (readSnapshotWithRetry ''projections/test-counter/stream-1''
        ((quietWorld Map.empty)
           \<lparr>fetches := [Stalls, Stalls, Fails (NonError (VStr ''boom''))]\<rparr>))
      \<noteq> Inl (NonError (VStr ''boom''))"
  using loop_result [of 0 None "''projections/test-counter/stream-1''"
          "(quietWorld Map.empty)\<lparr>fetches := [Stalls, Stalls, Fails (NonError (VStr ''boom''))]\<rparr>"]
  by (simp add: readSnapshotWithRetry_def finalError_def)

lemma single_applier_answered:
  assumes "answersFetch w"
  shows "handleSingleProjection (realtimeDBInlineProjection options) events sid w =
     handle (realtimeDBInlineProjection options) events
       \<lparr>document = nullish (snapshot_val (store w (projectionPath (projectionName options) sid))) VNull,
        streamId = sid, projectionRef = projectionPath (projectionName options) sid\<rparr>
       (w\<lparr>calls := calls w @ [Once (projectionPath (projectionName options) sid)],
          fetches := tl (fetches w)\<rparr>)"
  by (simp add: handleSingleProjection_def name_applier read_answers [OF assms] Let_def)

lemma counter_first_item:
  "handleSingleProjection (realtimeDBInlineProjection counterOptions) [itemAdded 0] ''stream-1''
     (quietWorld Map.empty) =
   (Inr (),
    \<lparr>store = [''projections/test-counter/stream-1'' \<mapsto>
        VObj [(''count'', VNum 1),
              (''_metadata'', VObj [(''streamId'', VStr ''stream-1''),
                                    (''name'', VStr ''test-counter''),
                                    (''schemaVersion'', VNum 1),
                                    (''streamPosition'', VStr ''0'')])]],
     calls = [Once ''projections/test-counter/stream-1'',
              Set ''projections/test-counter/stream-1''
                (VObj [(''count'', VNum 1),
                       (''_metadata'', VObj [(''streamId'', VStr ''stream-1''),
                                             (''name'', VStr ''test-counter''),
                                             (''schemaVersion'', VNum 1),
                                             (''streamPosition'', VStr ''0'')])])],
     fetches = [], writes = [], offline_throws = [], online_throws = []\<rparr>)"
  apply (simp add: single_applier_answered [OF answersFetch_quietWorld] handle_applier)
  apply (simp add: projectionPath_def projectionName_def counterOptions_def quietWorld_def
      snapshot_val_def workingState_def rawDocument_VNull itemAdded_def createReadEvent_def
      counterStep_def)
  apply (simp add: ref_set_def withMetadata_def readModelMetadata_def projectionName_def
      schemaVersionOf_def bigint_toString_small Let_def)
  done

lemma interested_fixtures:
  "interested (realtimeDBInlineProjection counterOptions) [itemAdded 0]"
  "\<not> interested (realtimeDBInlineProjection (confirmationOptions ''2024-01-01T00:00:00.000Z'')) [itemAdded 0]"
  "interested failingProjection [itemAdded 0]"
  "interested (realtimeDBInlineProjection nullableOptions) [itemAdded 0]"
  by (simp_all add: interested_def realtimeDBInlineProjection_def counterOptions_def
      confirmationOptions_def nullableOptions_def failingProjection_def itemAdded_def
      createReadEvent_def)

theorem dispatch_visits_witness:
  "handleInlineProjections [itemAdded 0]
     [realtimeDBInlineProjection counterOptions, realtimeDBInlineProjection (confirmationOptions ''2024-01-01T00:00:00.000Z'')]
     ''stream-1'' (quietWorld Map.empty) =
   (Inr (),
    \<lparr>store = [''projections/test-counter/stream-1'' \<mapsto>
        VObj [(''count'', VNum 1),
              (''_metadata'', VObj [(''streamId'', VStr ''stream-1''),
                                    (''name'', VStr ''test-counter''),
                                    (''schemaVersion'', VNum 1),
                                    (''streamPosition'', VStr ''0'')])]],
     calls = [Once ''projections/test-counter/stream-1'',
              Set ''projections/test-counter/stream-1''
                (VObj [(''count'', VNum 1),
                       (''_metadata'', VObj [(''streamId'', VStr ''stream-1''),
                                             (''name'', VStr ''test-counter''),
                                             (''schemaVersion'', VNum 1),
                                             (''streamPosition'', VStr ''0'')])])],
     fetches = [], writes = [], offline_throws = [], online_throws = []\<rparr>)"
  using dispatch_visits_interested_projections_in_order
          [of "[itemAdded 0]"
              "[realtimeDBInlineProjection counterOptions,
                realtimeDBInlineProjection (confirmationOptions ''2024-01-01T00:00:00.000Z'')]"
              "''stream-1''" "quietWorld Map.empty"
              "realtimeDBInlineProjection (confirmationOptions ''2024-01-01T00:00:00.000Z'')"
              "[realtimeDBInlineProjection counterOptions]" "[]"]
  by (simp add: interested_fixtures counter_first_item)

theorem empty_batch_witness:
  "handleInlineProjections []
     [realtimeDBInlineProjection counterOptions, failingProjection] ''stream-1''
     (quietWorld Map.empty) = (Inr (), quietWorld Map.empty)
   \<and> handle (realtimeDBInlineProjection counterOptions) []
        \<lparr>document = VNull, streamId = ''stream-1'',
         projectionRef = ''projections/test-counter/stream-1''\<rparr> (quietWorld Map.empty)
      = (Inr (), quietWorld Map.empty)"
  using empty_batch_is_a_no_op
          [of "[realtimeDBInlineProjection counterOptions, failingProjection]" "''stream-1''"
              "quietWorld Map.empty" counterOptions
              "\<lparr>document = VNull, streamId = ''stream-1'',
                projectionRef = ''projections/test-counter/stream-1''\<rparr>"]
  by simp

theorem dispatch_stops_witness:
  "handleInlineProjections [itemAdded 0]
     [realtimeDBInlineProjection counterOptions, failingProjection,
      realtimeDBInlineProjection nullableOptions]
     ''stream-1'' (quietWorld Map.empty) =
   (Inl (ErrorObj ''Error'' ''Projection failed''),
    \<lparr>store = [''projections/test-counter/stream-1'' \<mapsto>
        VObj [(''count'', VNum 1),
              (''_metadata'', VObj [(''streamId'', VStr ''stream-1''),
                                    (''name'', VStr ''test-counter''),
                                    (''schemaVersion'', VNum 1),
                                    (''streamPosition'', VStr ''0'')])]],
     calls = [Once ''projections/test-counter/stream-1'',
              Set ''projections/test-counter/stream-1''
                (VObj [(''count'', VNum 1),
                       (''_metadata'', VObj [(''streamId'', VStr ''stream-1''),
                                             (''name'', VStr ''test-counter''),
                                             (''schemaVersion'', VNum 1),
                                             (''streamPosition'', VStr ''0'')])]),
              Once ''projections/failing/stream-1''],
     fetches = [], writes = [], offline_throws = [], online_throws = []\<rparr>)"
proof -
  let ?doc = "VObj [(''count'', VNum 1),
              (''_metadata'', VObj [(''streamId'', VStr ''stream-1''),
                                    (''name'', VStr ''test-counter''),
                                    (''schemaVersion'', VNum 1),
                                    (''streamPosition'', VStr ''0'')])]"
  let ?w1 = "\<lparr>store = [''projections/test-counter/stream-1'' \<mapsto> ?doc],
     calls = [Once ''projections/test-counter/stream-1'',
              Set ''projections/test-counter/stream-1'' ?doc],
     fetches = [], writes = [], offline_throws = [], online_throws = []\<rparr>"
  let ?w2 = "?w1\<lparr>calls := calls ?w1 @ [Once ''projections/failing/stream-1'']\<rparr>"
  have h1: "matchingProjections [itemAdded 0]
              [realtimeDBInlineProjection counterOptions, failingProjection,
               realtimeDBInlineProjection nullableOptions]
            = [realtimeDBInlineProjection counterOptions] @ failingProjection #
              [realtimeDBInlineProjection nullableOptions]"
    by (simp add: matching_interested interested_fixtures)
  have h2: "handleEach [realtimeDBInlineProjection counterOptions] [itemAdded 0] ''stream-1''
              (quietWorld Map.empty) = (Inr (), ?w1)"
    by (simp add: counter_first_item)
  have a: "answersFetch ?w1" by (simp add: answersFetch_def)
  have h3: "handleSingleProjection failingProjection [itemAdded 0] ''stream-1'' ?w1
              = (Inl (ErrorObj ''Error'' ''Projection failed''), ?w2)"
    by (simp add: handleSingleProjection_def read_answers [OF a])
       (simp add: failingProjection_def projectionPath_def)
  show ?thesis
    using dispatch_stops_at_first_failure [OF h1 h2 h3] by simp
qed

theorem reader_gives_up_witness:
  "handleInlineProjections [itemAdded 0]
     [realtimeDBInlineProjection counterOptions, realtimeDBInlineProjection nullableOptions]
     ''stream-1''
     ((quietWorld Map.empty)\<lparr>fetches :=
        [Answers, Fails (NonError (VStr ''boom'')), Stalls,
         Fails (ErrorObj ''Error'' ''permission denied'')]\<rparr>)
   = (Inl (ErrorObj ''Error'' ''permission denied''),
      \<lparr>store = [''projections/test-counter/stream-1'' \<mapsto>
          VObj [(''count'', VNum 1),
                (''_metadata'', VObj [(''streamId'', VStr ''stream-1''),
                                      (''name'', VStr ''test-counter''),
                                      (''schemaVersion'', VNum 1),
                                      (''streamPosition'', VStr ''0'')])]],
       calls = [Once ''projections/test-counter/stream-1'',
                Set ''projections/test-counter/stream-1''
                  (VObj [(''count'', VNum 1),
                         (''_metadata'', VObj [(''streamId'', VStr ''stream-1''),
                                               (''name'', VStr ''test-counter''),
                                               (''schemaVersion'', VNum 1),
                                               (''streamPosition'', VStr ''0'')])]),
                Once ''projections/test-nullable/stream-1'', Sleep 500,
                Once ''projections/test-nullable/stream-1'', GoOffline, GoOnline, Sleep 1000,
                Once ''projections/test-nullable/stream-1''],
       fetches = [], writes = [], offline_throws = [], online_throws = []\<rparr>)"
proof -
  let ?doc = "VObj [(''count'', VNum 1),
                (''_metadata'', VObj [(''streamId'', VStr ''stream-1''),
                                      (''name'', VStr ''test-counter''),
                                      (''schemaVersion'', VNum 1),
                                      (''streamPosition'', VStr ''0'')])]"
  let ?w = "(quietWorld Map.empty)\<lparr>fetches :=
        [Answers, Fails (NonError (VStr ''boom'')), Stalls,
         Fails (ErrorObj ''Error'' ''permission denied'')]\<rparr>"
  let ?w1 = "\<lparr>store = [''projections/test-counter/stream-1'' \<mapsto> ?doc],
       calls = [Once ''projections/test-counter/stream-1'',
                Set ''projections/test-counter/stream-1'' ?doc],
       fetches = [Fails (NonError (VStr ''boom'')), Stalls,
                  Fails (ErrorObj ''Error'' ''permission denied'')],
       writes = [], offline_throws = [], online_throws = []\<rparr>"
  have h1: "matchingProjections [itemAdded 0]
              [realtimeDBInlineProjection counterOptions, realtimeDBInlineProjection nullableOptions]
            = [realtimeDBInlineProjection counterOptions] @
              realtimeDBInlineProjection nullableOptions # []"
    by (simp add: matching_interested interested_fixtures)
  have a: "answersFetch ?w" by (simp add: answersFetch_def)
  have h2: "handleEach [realtimeDBInlineProjection counterOptions] [itemAdded 0] ''stream-1'' ?w
              = (Inr (), ?w1)"
    apply (simp add: single_applier_answered [OF a] handle_applier)
    apply (simp add: projectionPath_def projectionName_def counterOptions_def quietWorld_def
        snapshot_val_def workingState_def rawDocument_VNull itemAdded_def createReadEvent_def
        counterStep_def)
    apply (simp add: ref_set_def withMetadata_def readModelMetadata_def projectionName_def
        schemaVersionOf_def bigint_toString_small Let_def)
    done
  have h3: "fetches ?w1 = Fails (NonError (VStr ''boom'')) # Stalls #
              Fails (ErrorObj ''Error'' ''permission denied'') # []" by simp
  have p: "projectionPath (name (realtimeDBInlineProjection nullableOptions)) ''stream-1''
             = ''projections/test-nullable/stream-1''"
    by (simp add: projectionPath_def name_applier projectionName_def nullableOptions_def)
  have w': "snd (readSnapshotWithRetry ''projections/test-nullable/stream-1'' ?w1) =
      \<lparr>store = [''projections/test-counter/stream-1'' \<mapsto> ?doc],
       calls = [Once ''projections/test-counter/stream-1'',
                Set ''projections/test-counter/stream-1'' ?doc,
                Once ''projections/test-nullable/stream-1'', Sleep 500,
                Once ''projections/test-nullable/stream-1'', GoOffline, GoOnline, Sleep 1000,
                Once ''projections/test-nullable/stream-1''],
       fetches = [], writes = [], offline_throws = [], online_throws = []\<rparr>"
    by (simp add: readSnapshotWithRetry_def loop_unfold
      attempt_outcome afterFailure_def TIMEOUT_ERROR_MESSAGE_def READ_TIMEOUTS_MS_def
      resetRealtimeDbConnection_def goOffline_def goOnline_def sleep_def ref_once_def Let_def)
  show ?thesis
    using reader_gives_up_after_three_failures
            [OF h1 h2 h3, of "NonError (VStr ''boom'')"
               "ErrorObj ''Error'' ''Realtime DB read timed out.''"
               "ErrorObj ''Error'' ''permission denied''" "''p''"]
    by (simp add: p w')
qed

subsection \<open>The append interceptor\<close>

lemma map_enumerate_by_index:
  "map (\<lambda>(i, x). f i x) (enumerate 0 xs) = map (\<lambda>i. f i (xs ! i)) [0 ..< length xs]"
  by (rule nth_equalityI) (simp_all add: nth_enumerate_eq)

lemma readEvents_by_index:
  "readEvents sname nextVersion events =
     map (\<lambda>i. \<lparr>type = type (events ! i), data = data (events ! i),
                metadata =
                  \<lparr>streamName = sname,
                   streamPosition = nextVersion - int (length events) + 1 + int i,
                   messageId = sname @ ''-'' @
                     bigint_toString (nextVersion - int (length events) + 1 + int i)\<rparr>\<rparr>)
         [0 ..< length events]"
  unfolding readEvents_def Let_def by (rule map_enumerate_by_index)

lemma versionValue_cases:
  "nextExpectedStreamVersion result \<noteq> NoVersion \<Longrightarrow>
     versionValue result = nextExpectedStreamVersion result"
  "nextExpectedStreamVersion result = NoVersion \<Longrightarrow> versionValue result = streamVersion result"
  by (auto simp: versionValue_def split: version_value.splits)

lemma bigint_toString_more:
  "bigint_toString 10 = ''10''" "bigint_toString 11 = ''11''"
  by code_simp+


lemma wire_appendToStream:
  "appendToStream (wireRealtimeDBProjections options) sname events appendOptions w =
     (case appendToStream (eventStore options) sname events appendOptions w of
        (Inl err, w1) \<Rightarrow> (Inl err, w1)
      | (Inr result, w1) \<Rightarrow>
          (case toBigInt (versionValue result) of
             Inl err \<Rightarrow> (Inl err, w1)
           | Inr nextVersion \<Rightarrow>
               (case handleInlineProjections (readEvents sname nextVersion events)
                       (projections options) sname w1 of
                  (Inl err, w2) \<Rightarrow> (Inl err, w2)
                | (Inr _, w2) \<Rightarrow> (Inr result, w2))))"
  unfolding wireRealtimeDBProjections_def Let_def by simp


text \<open>
  C2. After an append that succeeds with a result whose version is \<open>V\<close> as a bigint
  (\<^verbatim>\<open>nextExpectedStreamVersion\<close> when the result has it, \<^verbatim>\<open>streamVersion\<close> otherwise), the wrapped
  append calls the dispatcher, with the stream name as stream id, on one event for each
  appended event: the event at index \<open>i\<close> of \<open>N\<close> keeps its type and data and gets the stream
  name, the stream position \<open>V - N + 1 + i\<close>, an exact integer, and the message id made of
  the stream name, a hyphen and that position in decimal. The append's own result is returned
  when the dispatch succeeds, the dispatch's error when it fails.
\<close>

theorem interceptor_assigns_positions_and_dispatches:
  assumes "appendToStream (eventStore options) sname events appendOptions w = (Inr result, w1)"
    and "(nextExpectedStreamVersion result \<noteq> NoVersion
            \<and> toBigInt (nextExpectedStreamVersion result) = Inr V)
         \<or> (nextExpectedStreamVersion result = NoVersion
            \<and> toBigInt (streamVersion result) = Inr V)"
  shows "appendToStream (wireRealtimeDBProjections options) sname events appendOptions w =
           (case handleInlineProjections
                   (map (\<lambda>i. \<lparr>type = type (events ! i), data = data (events ! i),
                              metadata =
                                \<lparr>streamName = sname,
                                 streamPosition = V - int (length events) + 1 + int i,
                                 messageId = sname @ ''-'' @
                                   bigint_toString (V - int (length events) + 1 + int i)\<rparr>\<rparr>)
                        [0 ..< length events])
                   (projections options) sname w1 of
              (Inl err, w2) \<Rightarrow> (Inl err, w2)
            | (Inr _, w2) \<Rightarrow> (Inr result, w2))"
proof -
  from assms(2) have v: "toBigInt (versionValue result) = Inr V"
    by (auto simp: versionValue_cases)
  show ?thesis
    unfolding wire_appendToStream assms(1) by (simp add: v readEvents_by_index)
qed

lemma two_indices: "[0 ..< length [a, b]] = [0, Suc 0]"
  by (simp add: upt_rec)

lemma counter_two_items:
  "handleInlineProjections
     [\<lparr>type = ''ItemAdded'', data = d1,
       metadata = \<lparr>streamName = ''stream-1'', streamPosition = 10, messageId = ''stream-1-10''\<rparr>\<rparr>,
      \<lparr>type = ''ItemAdded'', data = d2,
       metadata = \<lparr>streamName = ''stream-1'', streamPosition = 11, messageId = ''stream-1-11''\<rparr>\<rparr>]
     [realtimeDBInlineProjection counterOptions] ''stream-1'' (quietWorld Map.empty) =
   (Inr (),
    \<lparr>store = [''projections/test-counter/stream-1'' \<mapsto>
        VObj [(''count'', VNum 2),
              (''_metadata'', VObj [(''streamId'', VStr ''stream-1''),
                                    (''name'', VStr ''test-counter''),
                                    (''schemaVersion'', VNum 1),
                                    (''streamPosition'', VStr ''11'')])]],
     calls = [Once ''projections/test-counter/stream-1'',
              Set ''projections/test-counter/stream-1''
                (VObj [(''count'', VNum 2),
                       (''_metadata'', VObj [(''streamId'', VStr ''stream-1''),
                                             (''name'', VStr ''test-counter''),
                                             (''schemaVersion'', VNum 1),
                                             (''streamPosition'', VStr ''11'')])])],
     fetches = [], writes = [], offline_throws = [], online_throws = []\<rparr>)"
proof -
  have m: "\<And>es. matchingProjections
             (\<lparr>type = ''ItemAdded'', data = d1,
               metadata = \<lparr>streamName = ''stream-1'', streamPosition = 10,
                           messageId = ''stream-1-10''\<rparr>\<rparr> # es)
             [realtimeDBInlineProjection counterOptions]
           = [realtimeDBInlineProjection counterOptions]"
    by (simp add: matching_interested interested_def realtimeDBInlineProjection_def
        counterOptions_def)
  show ?thesis
    unfolding handleInlineProjections_def m
    apply (simp add: single_applier_answered [OF answersFetch_quietWorld] handle_applier)
    apply (simp add: projectionPath_def projectionName_def counterOptions_def quietWorld_def
        snapshot_val_def workingState_def rawDocument_VNull counterStep_def)
    apply (simp add: ref_set_def withMetadata_def readModelMetadata_def projectionName_def
        schemaVersionOf_def bigint_toString_more Let_def)
    done
qed

theorem interceptor_witness:
  "appendToStream
     (wireRealtimeDBProjections
        \<lparr>eventStore = mockEventStore,
         projections = [realtimeDBInlineProjection counterOptions]\<rparr>)
     ''stream-1'' [plainItemAdded, plainItemAdded] () (quietWorld Map.empty) =
   (Inr \<lparr>nextExpectedStreamVersion = BigIntVersion 11, streamVersion = BigIntVersion 10\<rparr>,
    \<lparr>store = [''projections/test-counter/stream-1'' \<mapsto>
        VObj [(''count'', VNum 2),
              (''_metadata'', VObj [(''streamId'', VStr ''stream-1''),
                                    (''name'', VStr ''test-counter''),
                                    (''schemaVersion'', VNum 1),
                                    (''streamPosition'', VStr ''11'')])]],
     calls = [Once ''projections/test-counter/stream-1'',
              Set ''projections/test-counter/stream-1''
                (VObj [(''count'', VNum 2),
                       (''_metadata'', VObj [(''streamId'', VStr ''stream-1''),
                                             (''name'', VStr ''test-counter''),
                                             (''schemaVersion'', VNum 1),
                                             (''streamPosition'', VStr ''11'')])])],
     fetches = [], writes = [], offline_throws = [], online_throws = []\<rparr>)
   \<and> map (\<lambda>e. (streamPosition (metadata e), messageId (metadata e)))
         (readEvents ''stream-1'' 11 [plainItemAdded, plainItemAdded])
      = [(10, ''stream-1-10''), (11, ''stream-1-11'')]"
proof -
  let ?options = "\<lparr>eventStore = mockEventStore,
         projections = [realtimeDBInlineProjection counterOptions]\<rparr>"
  let ?result = "\<lparr>nextExpectedStreamVersion = BigIntVersion 11, streamVersion = BigIntVersion 10\<rparr>"
  have h1: "appendToStream (eventStore ?options) ''stream-1'' [plainItemAdded, plainItemAdded] ()
              (quietWorld Map.empty) = (Inr ?result, quietWorld Map.empty)"
    by (simp add: mockEventStore_def)
  have h2: "(nextExpectedStreamVersion ?result \<noteq> NoVersion
            \<and> toBigInt (nextExpectedStreamVersion ?result) = Inr 11)
         \<or> (nextExpectedStreamVersion ?result = NoVersion
            \<and> toBigInt (streamVersion ?result) = Inr 11)"
    by simp
  have r: "map (\<lambda>e. (streamPosition (metadata e), messageId (metadata e)))
         (readEvents ''stream-1'' 11 [plainItemAdded, plainItemAdded])
      = [(10, ''stream-1-10''), (11, ''stream-1-11'')]"
    by (simp add: readEvents_by_index two_indices bigint_toString_more)
  show ?thesis
    using interceptor_assigns_positions_and_dispatches [OF h1 h2] r
    by (simp add: two_indices bigint_toString_more plainItemAdded_def counter_two_items)
qed

subsection \<open>The read helper\<close>

lemma get_prop_update: "get_prop (VObj (AList.update k v al)) k = v"
  by (simp add: update_conv')

lemma convert_persisted:
  "convertStreamPosition
     (VObj (AList.update ''_metadata''
        (VObj [(''streamId'', VStr sid), (''name'', VStr n), (''schemaVersion'', VNum v),
               (''streamPosition'', VStr (bigint_toString p))]) al)) =
   Inr (VObj (AList.update ''_metadata''
        (VObj [(''streamId'', VStr sid), (''name'', VStr n), (''schemaVersion'', VNum v),
               (''streamPosition'', VBigInt p)]) al))"
  by (simp add: convertStreamPosition_def update_conv' StringToBigInt_bigint_toString
      Let_def del: StringToBigInt.simps)

lemma convert_object:
  "convertStreamPosition (VObj kvs) = Inr v \<Longrightarrow> v \<noteq> VNull"
  by (auto simp: convertStreamPosition_def Let_def split: if_splits jsval.splits sum.splits)

lemma getProjectionState_answered:
  "answersFetch w \<Longrightarrow>
   getProjectionState projName sid w =
     (let data' = snapshot_val (store w (projectionPath projName sid));
          w1 = w\<lparr>calls := calls w @ [Once (projectionPath projName sid)],
                 fetches := tl (fetches w)\<rparr>
      in if \<not> truthy data' then (Resolved VNull, w1)
         else (case convertStreamPosition data' of
                 Inl err \<Rightarrow> (Rejected err, w1)
               | Inr v \<Rightarrow> (Resolved v, w1)))"
  by (simp add: getProjectionState_def ref_once_answers Let_def)

text \<open>
  C10. What the applier writes, the read helper reads back. When the applier persists the
  final state of a non-empty batch at the path the helper reads, the stored envelope holds
  the last event's stream position \<open>p\<close> as the decimal string of \<open>p\<close>, and the helper returns the
  stored document with that one property replaced by the bigint \<open>p\<close> and everything else as
  stored. And when the path holds either nothing or an object, the helper returns \<^verbatim>\<open>null\<close>
  exactly when it holds nothing.
\<close>

theorem projection_state_round_trip:
  "(events \<noteq> []
      \<and> evolveAll (evolve options) (workingState options (document ctx)) events = Inr state
      \<and> state \<noteq> VNull
      \<and> acceptsWrite w \<and> answersFetch w
      \<and> projectionRef ctx = projectionPath projName sid
    \<longrightarrow>
      store (snd (handle (realtimeDBInlineProjection options) events ctx w))
        (projectionPath projName sid) =
        Some (VObj (AList.update ''_metadata''
          (VObj [(''streamId'', VStr (streamId ctx)),
                 (''name'', VStr (name (realtimeDBInlineProjection options))),
                 (''schemaVersion'', VNum (case schemaVersion options of None \<Rightarrow> 1 | Some v \<Rightarrow> v)),
                 (''streamPosition'',
                    VStr (bigint_toString (streamPosition (metadata (last events)))))])
          (spread state)))
      \<and> fst (getProjectionState projName sid
                (snd (handle (realtimeDBInlineProjection options) events ctx w))) =
        Resolved (VObj (AList.update ''_metadata''
          (VObj [(''streamId'', VStr (streamId ctx)),
                 (''name'', VStr (name (realtimeDBInlineProjection options))),
                 (''schemaVersion'', VNum (case schemaVersion options of None \<Rightarrow> 1 | Some v \<Rightarrow> v)),
                 (''streamPosition'', VBigInt (streamPosition (metadata (last events))))])
          (spread state))))
   \<and> (answersFetch w
        \<and> (store w (projectionPath projName sid) = None
            \<or> (\<exists>kvs. store w (projectionPath projName sid) = Some (VObj kvs)))
      \<longrightarrow>
        (fst (getProjectionState projName sid w) = Resolved VNull)
          = (store w (projectionPath projName sid) = None))"
proof (intro conjI impI)
  assume a: "events \<noteq> []
      \<and> evolveAll (evolve options) (workingState options (document ctx)) events = Inr state
      \<and> state \<noteq> VNull
      \<and> acceptsWrite w \<and> answersFetch w
      \<and> projectionRef ctx = projectionPath projName sid"
  let ?stored = "VObj (AList.update ''_metadata''
          (VObj [(''streamId'', VStr (streamId ctx)),
                 (''name'', VStr (name (realtimeDBInlineProjection options))),
                 (''schemaVersion'', VNum (case schemaVersion options of None \<Rightarrow> 1 | Some v \<Rightarrow> v)),
                 (''streamPosition'',
                    VStr (bigint_toString (streamPosition (metadata (last events)))))])
          (spread state))"
  let ?w' = "w\<lparr>calls := calls w @ [Set (projectionPath projName sid) ?stored],
              writes := tl (writes w),
              store := (store w)(projectionPath projName sid \<mapsto> ?stored)\<rparr>"
  from a have h: "handle (realtimeDBInlineProjection options) events ctx w = (Inr (), ?w')"
    by (simp add: handle_applier ref_set_accepts withMetadata_def readModelMetadata_def
        name_applier schemaVersionOf_def)
  show "store (snd (handle (realtimeDBInlineProjection options) events ctx w))
        (projectionPath projName sid) = Some ?stored"
    by (simp add: h)
  from a have ans: "answersFetch ?w'" by (simp add: answersFetch_def)
  show "fst (getProjectionState projName sid
                (snd (handle (realtimeDBInlineProjection options) events ctx w))) =
        Resolved (VObj (AList.update ''_metadata''
          (VObj [(''streamId'', VStr (streamId ctx)),
                 (''name'', VStr (name (realtimeDBInlineProjection options))),
                 (''schemaVersion'', VNum (case schemaVersion options of None \<Rightarrow> 1 | Some v \<Rightarrow> v)),
                 (''streamPosition'', VBigInt (streamPosition (metadata (last events))))])
          (spread state)))"
    unfolding h snd_conv getProjectionState_answered [OF ans]
    by (simp add: snapshot_val_def convert_persisted Let_def)
next
  assume b: "answersFetch w
        \<and> (store w (projectionPath projName sid) = None
            \<or> (\<exists>kvs. store w (projectionPath projName sid) = Some (VObj kvs)))"
  then have ans: "answersFetch w" by simp
  from b consider "store w (projectionPath projName sid) = None"
    | kvs where "store w (projectionPath projName sid) = Some (VObj kvs)" by auto
  then show "(fst (getProjectionState projName sid w) = Resolved VNull)
          = (store w (projectionPath projName sid) = None)"
  proof cases
    case 1
    then show ?thesis
      by (simp add: getProjectionState_answered [OF ans] snapshot_val_def Let_def)
  next
    case 2
    then show ?thesis
      by (auto simp: getProjectionState_answered [OF ans] snapshot_val_def Let_def
          split: sum.splits dest: convert_object)
  qed
qed

lemma bigint_toString_unsafe_integer:
  "bigint_toString 9007199254740993 = ''9007199254740993''"
  by (simp add: bigint_toString_def nat_toString.simps digit_char_def)

theorem projection_state_witness:
  "store (snd (handle (realtimeDBInlineProjection counterOptions) [itemAdded 9007199254740993]
                 \<lparr>document = VNull, streamId = ''stream-1'',
                  projectionRef = ''projections/test-counter/stream-1''\<rparr>
                 (quietWorld Map.empty)))
     ''projections/test-counter/stream-1'' =
     Some (VObj [(''count'', VNum 1),
                 (''_metadata'', VObj [(''streamId'', VStr ''stream-1''),
                                       (''name'', VStr ''test-counter''),
                                       (''schemaVersion'', VNum 1),
                                       (''streamPosition'', VStr ''9007199254740993'')])])
   \<and> fst (getProjectionState ''test-counter'' ''stream-1''
        (snd (handle (realtimeDBInlineProjection counterOptions) [itemAdded 9007199254740993]
                \<lparr>document = VNull, streamId = ''stream-1'',
                 projectionRef = ''projections/test-counter/stream-1''\<rparr>
                (quietWorld Map.empty)))) =
     Resolved (VObj [(''count'', VNum 1),
                     (''_metadata'', VObj [(''streamId'', VStr ''stream-1''),
                                           (''name'', VStr ''test-counter''),
                                           (''schemaVersion'', VNum 1),
                                           (''streamPosition'', VBigInt 9007199254740993)])])
   \<and> fst (getProjectionState ''test-counter'' ''stream-1'' (quietWorld Map.empty)) = Resolved VNull"
proof -
  let ?events = "[itemAdded 9007199254740993]"
  let ?ctx = "\<lparr>document = VNull, streamId = ''stream-1'',
               projectionRef = ''projections/test-counter/stream-1''\<rparr>"
  let ?w = "quietWorld Map.empty"
  have h: "?events \<noteq> []
      \<and> evolveAll (evolve counterOptions) (workingState counterOptions (document ?ctx)) ?events
          = Inr (VObj [(''count'', VNum 1)])
      \<and> VObj [(''count'', VNum 1)] \<noteq> VNull
      \<and> acceptsWrite ?w \<and> answersFetch ?w
      \<and> projectionRef ?ctx = projectionPath ''test-counter'' ''stream-1''"
    by (simp add: counterOptions_def workingState_def rawDocument_VNull itemAdded_def
        createReadEvent_def counterStep_def acceptsWrite_quietWorld answersFetch_quietWorld
        projectionPath_def)
  have g: "answersFetch ?w
        \<and> (store ?w (projectionPath ''test-counter'' ''stream-1'') = None
            \<or> (\<exists>kvs. store ?w (projectionPath ''test-counter'' ''stream-1'') = Some (VObj kvs)))"
    by (simp add: answersFetch_quietWorld) (simp add: quietWorld_def)
  note t = projection_state_round_trip
             [of ?events counterOptions ?ctx "VObj [(''count'', VNum 1)]" ?w
                 "''test-counter''" "''stream-1''"]
  from t [THEN conjunct1, THEN mp, OF h] t [THEN conjunct2, THEN mp, OF g]
  show ?thesis
    by (simp add: projectionPath_def name_applier projectionName_def counterOptions_def
        itemAdded_def createReadEvent_def bigint_toString_unsafe_integer quietWorld_def)
qed

end
